theory Spec2Isabelle
  imports Complex_Main "HOL-Library.Multiset" "HOL-Library.Product_Lexorder"
begin

section \<open>Text\<close>

text \<open>
  A Python \<open>str\<close> is a sequence of Unicode code points, so it is modelled as a list of
  natural numbers. ASCII text is written through \<open>asc\<close>; the Chinese literals of
  \<open>app.py\<close> are written as their code points, with a gloss.
\<close>

type_synonym ustr = "nat list"

definition asc :: "string \<Rightarrow> ustr" where
  "asc s = map of_char s"

text \<open>\<open>str.isspace\<close> on one code point: the characters \<open>str.strip()\<close> removes.\<close>

definition py_isspace :: "nat \<Rightarrow> bool" where
  "py_isspace c \<longleftrightarrow>
     (9 \<le> c \<and> c \<le> 13) \<or> (28 \<le> c \<and> c \<le> 32) \<or> c = 0x85 \<or> c = 0xA0 \<or> c = 0x1680 \<or>
     (0x2000 \<le> c \<and> c \<le> 0x200A) \<or> c = 0x2028 \<or> c = 0x2029 \<or> c = 0x202F \<or>
     c = 0x205F \<or> c = 0x3000"

definition strip :: "ustr \<Rightarrow> ustr" where
  "strip s = rev (dropWhile py_isspace (rev (dropWhile py_isspace s)))"

text \<open>\<open>s.replace(old, new)\<close> for a one-character \<open>old\<close>, the only form \<open>app.py\<close> uses.\<close>

definition replace_char :: "nat \<Rightarrow> ustr \<Rightarrow> ustr \<Rightarrow> ustr" where
  "replace_char old new s = concat (map (\<lambda>c. if c = old then new else [c]) s)"

fun starts_with :: "ustr \<Rightarrow> ustr \<Rightarrow> bool" where
  "starts_with s [] = True"
| "starts_with [] (p # ps) = False"
| "starts_with (c # s) (p # ps) = (c = p \<and> starts_with s ps)"

text \<open>\<open>p in s\<close> on strings: \<open>p\<close> occurs in \<open>s\<close> as a contiguous run.\<close>

fun str_in :: "ustr \<Rightarrow> ustr \<Rightarrow> bool" where
  "str_in p [] = (p = [])"
| "str_in p (c # s) = (starts_with (c # s) p \<or> str_in p s)"

definition ends_with :: "ustr \<Rightarrow> ustr \<Rightarrow> bool" where
  "ends_with s p = starts_with (rev s) (rev p)"

section \<open>Statutory classes of notifiable diseases\<close>

text \<open>The keys of \<open>DISEASE_CLASS\<close>, which are also the labels \<open>get_disease_class\<close> returns.\<close>

definition cls_A :: ustr where \<comment> \<open>jia lei, class A\<close>
  "cls_A = [0x7532, 0x7C7B]"

definition cls_B :: ustr where \<comment> \<open>yi lei, class B\<close>
  "cls_B = [0x4E59, 0x7C7B]"

definition cls_C :: ustr where \<comment> \<open>bing lei, class C\<close>
  "cls_C = [0x4E19, 0x7C7B]"

definition cls_other :: ustr where \<comment> \<open>qi ta, other\<close>
  "cls_other = [0x5176, 0x4ED6]"

definition DISEASE_CLASS_A :: "ustr list" where
  "DISEASE_CLASS_A =
   [[0x9F20, 0x75AB],
    [0x970D, 0x4E71]]"

definition DISEASE_CLASS_B :: "ustr list" where
  "DISEASE_CLASS_B =
   [[0x4F20, 0x67D3, 0x6027, 0x975E, 0x5178, 0x578B, 0x80BA, 0x708E],
    [0x827E, 0x6ECB, 0x75C5],
    [0x75C5, 0x6BD2, 0x6027, 0x809D, 0x708E],
    [0x810A, 0x9AD3, 0x7070, 0x8D28, 0x708E],
    [0x4EBA, 0x611F, 0x67D3, 0x9AD8, 0x81F4, 0x75C5, 0x6027, 0x79BD, 0x6D41, 0x611F],
    [0x9EBB, 0x75B9],
    [0x6D41, 0x884C, 0x6027, 0x51FA, 0x8840, 0x70ED],
    [0x72C2, 0x72AC, 0x75C5],
    [0x6D41, 0x884C, 0x6027, 0x4E59, 0x578B, 0x8111, 0x708E],
    [0x767B, 0x9769, 0x70ED],
    [0x70AD, 0x75BD],
    [0x7EC6, 0x83CC, 0x6027, 0x75E2, 0x75BE],
    [0x963F, 0x7C73, 0x5DF4, 0x6027, 0x75E2, 0x75BE],
    [0x80BA, 0x7ED3, 0x6838],
    [0x4F24, 0x5BD2],
    [0x526F, 0x4F24, 0x5BD2],
    [0x6D41, 0x884C, 0x6027, 0x8111, 0x810A, 0x9AD3, 0x819C, 0x708E],
    [0x767E, 0x65E5, 0x54B3],
    [0x767D, 0x5589],
    [0x65B0, 0x751F, 0x513F, 0x7834, 0x4F24, 0x98CE],
    [0x7329, 0x7EA2, 0x70ED],
    [0x5E03, 0x9C81, 0x6C0F, 0x83CC, 0x75C5],
    [0x6DCB, 0x75C5],
    [0x6885, 0x6BD2],
    [0x94A9, 0x7AEF, 0x87BA, 0x65CB, 0x4F53, 0x75C5],
    [0x8840, 0x5438, 0x866B, 0x75C5],
    [0x759F, 0x75BE],
    [0x65B0, 0x578B, 0x51A0, 0x72B6, 0x75C5, 0x6BD2, 0x611F, 0x67D3],
    [0x65B0, 0x51A0, 0x75C5, 0x6BD2, 0x611F, 0x67D3],
    [0x4EBA, 0x611F, 0x67D3, 0x0048, 0x0037, 0x004E, 0x0039, 0x79BD, 0x6D41, 0x611F],
    [0x7334, 0x75D8]]"

definition DISEASE_CLASS_C :: "ustr list" where
  "DISEASE_CLASS_C =
   [[0x6D41, 0x884C, 0x6027, 0x611F, 0x5192],
    [0x6D41, 0x884C, 0x6027, 0x816E, 0x817A, 0x708E],
    [0x98CE, 0x75B9],
    [0x6025, 0x6027, 0x51FA, 0x8840, 0x6027, 0x7ED3, 0x819C, 0x708E],
    [0x9EBB, 0x98CE, 0x75C5],
    [0x6D41, 0x884C, 0x6027, 0x6591, 0x75B9, 0x4F24, 0x5BD2],
    [0x5730, 0x65B9, 0x6027, 0x6591, 0x75B9, 0x4F24, 0x5BD2],
    [0x9ED1, 0x70ED, 0x75C5],
    [0x5305, 0x866B, 0x75C5],
    [0x4E1D, 0x866B, 0x75C5],
    [0x9664, 0x970D, 0x4E71, 0x3001, 0x7EC6, 0x83CC, 0x6027, 0x75E2, 0x75BE, 0x3001, 0x4F24,
     0x5BD2, 0x548C, 0x526F, 0x4F24, 0x5BD2, 0x4EE5, 0x5916, 0x7684, 0x611F, 0x67D3, 0x6027,
     0x8179, 0x6CFB, 0x75C5],
    [0x624B, 0x8DB3, 0x53E3, 0x75C5],
    [0x5176, 0x5B83, 0x611F, 0x67D3, 0x6027, 0x8179, 0x6CFB, 0x75C5],
    [0x5176, 0x4ED6, 0x611F, 0x67D3, 0x6027, 0x8179, 0x6CFB, 0x75C5]]"

text \<open>
  The substrings of line 29 (gan yan hepatitis, mei du syphilis, tan ju anthrax, ai zi AIDS)
  and of line 30 (fu xie diarrhoea, ban zhen typhus).
\<close>

definition keys_B :: "ustr list" where
  "keys_B = [[0x809D, 0x708E], [0x6885, 0x6BD2], [0x70AD, 0x75BD], [0x827E, 0x6ECB]]"

definition keys_C :: "ustr list" where
  "keys_C = [[0x8179, 0x6CFB], [0x6591, 0x75B9]]"

definition normalize_name :: "ustr \<Rightarrow> ustr" where
  \<comment> \<open>\<open>str(name).replace(' ', '').strip()\<close>\<close>
  "normalize_name name = strip (replace_char 0x20 [] name)"

definition get_disease_class :: "ustr \<Rightarrow> ustr" where
  "get_disease_class name0 =
     (let name = normalize_name name0 in
      if name \<in> set DISEASE_CLASS_A then cls_A
      else if name \<in> set DISEASE_CLASS_B \<or> list_ex (\<lambda>x. str_in x name) keys_B then cls_B
      else if name \<in> set DISEASE_CLASS_C \<or> list_ex (\<lambda>x. str_in x name) keys_C then cls_C
      else cls_other)"

section \<open>Numbers\<close>

text \<open>
  A Python or numpy float is a binary64 number. It is modelled by its value: a rational
  when it is finite, or one of the two infinities, or NaN. The result of reading a
  numeral and of every arithmetic operation is rounded to the nearest binary64 value,
  ties to even (\<open>round_double\<close>), with overflow to an infinity and underflow to zero; the
  sign of zero is not modelled. Comparisons and arithmetic follow IEEE 754 (every
  comparison with NaN is false, \<open>inf - inf\<close> and \<open>0 * inf\<close> are NaN, numpy division by zero
  gives an infinity or NaN).
\<close>

datatype pyfloat = Fin rat | PInf | NInf | NaN

datatype error =
  IndexError | KeyError | ValueError | TypeError | OverflowError | AttributeError

subsection \<open>Rounding to binary64\<close>

definition pow2 :: "int \<Rightarrow> rat" where
  "pow2 e = (if 0 \<le> e then 2 ^ nat e else 1 / 2 ^ nat (- e))"

text \<open>The binary exponent of a positive rational: \<open>2 ^ e \<le> a < 2 ^ (e + 1)\<close>.\<close>

function log2_hi :: "rat \<Rightarrow> int" where
  "log2_hi a = (if a < 2 then 0 else 1 + log2_hi (a / 2))"
  by pat_completeness auto
termination
proof (relation "measure (\<lambda>a. nat \<lfloor>a\<rfloor>)")
  show "wf (measure (\<lambda>a. nat \<lfloor>a\<rfloor>))" by simp
next
  fix a :: rat
  assume "\<not> a < 2"
  then have "a / 2 < of_int \<lfloor>a\<rfloor>" "0 < \<lfloor>a\<rfloor>" by linarith+
  then have "\<lfloor>a / 2\<rfloor> < \<lfloor>a\<rfloor>" by (simp add: floor_less_iff)
  then show "(a / 2, a) \<in> measure (\<lambda>a. nat \<lfloor>a\<rfloor>)" using \<open>0 < \<lfloor>a\<rfloor>\<close> by simp
qed

function log2_lo :: "rat \<Rightarrow> int" where
  "log2_lo a = (if a \<le> 0 \<or> 1 \<le> a then 0 else log2_lo (a * 2) - 1)"
  by pat_completeness auto
termination
proof (relation "measure (\<lambda>a. nat \<lfloor>1 / a\<rfloor>)")
  show "wf (measure (\<lambda>a. nat \<lfloor>1 / a\<rfloor>))" by simp
next
  fix a :: rat
  assume "\<not> (a \<le> 0 \<or> 1 \<le> a)"
  then have a: "0 < a" "a < 1" by simp_all
  then have x: "1 < 1 / a" by simp
  then have f: "0 < \<lfloor>1 / a\<rfloor>" by linarith
  have "1 / (a * 2) = (1 / a) / 2" by simp
  moreover have "(1 / a) / 2 < of_int \<lfloor>1 / a\<rfloor>"
  proof -
    define y where "y = 1 / a"
    have y: "1 < y" using x by (simp add: y_def)
    have f1: "y - 1 < of_int \<lfloor>y\<rfloor>" by linarith
    have "1 \<le> \<lfloor>y\<rfloor>" using y by (simp add: le_floor_iff)
    then have f2: "(1::rat) \<le> of_int \<lfloor>y\<rfloor>" by simp
    have "y / 2 < of_int \<lfloor>y\<rfloor>"
    proof (cases "2 \<le> y")
      case True
      then show ?thesis using f1 by linarith
    next
      case False
      then show ?thesis using f2 by linarith
    qed
    then show ?thesis by (simp add: y_def)
  qed
  ultimately have "\<lfloor>1 / (a * 2)\<rfloor> < \<lfloor>1 / a\<rfloor>" by (simp add: floor_less_iff)
  then show "(a * 2, a) \<in> measure (\<lambda>a. nat \<lfloor>1 / a\<rfloor>)" using f by simp
qed

declare log2_hi.simps [simp del]

declare log2_lo.simps [simp del]

text \<open>Rounding a rational to the nearest integer, halves to the even neighbour.\<close>

definition round_half_even :: "rat \<Rightarrow> int" where
  "round_half_even q =
     (let n = \<lfloor>q\<rfloor>; r = q - of_int n
      in if r < 1 / 2 then n else if 1 / 2 < r then n + 1 else if even n then n else n + 1)"

text \<open>
  The binary64 value nearest to a rational: 53 significant bits, the least exponent
  \<open>-1022\<close> (below it the subnormal numbers share one spacing), an infinity from
  \<open>2 ^ 1024\<close> on.
\<close>

definition round_double :: "rat \<Rightarrow> pyfloat" where
  "round_double q =
     (if q = 0 then Fin 0
      else
        (let a = \<bar>q\<bar>;
             e = max (if 1 \<le> a then log2_hi a else log2_lo a) (- 1022);
             n = round_half_even (a * pow2 (52 - e));
             r = of_int n * pow2 (e - 52)
         in if pow2 1024 \<le> r then (if q < 0 then NInf else PInf)
            else Fin (if q < 0 then - r else r)))"

subsection \<open>Comparison and arithmetic\<close>

fun f_lt :: "pyfloat \<Rightarrow> pyfloat \<Rightarrow> bool" where
  "f_lt (Fin a) (Fin b) = (a < b)"
| "f_lt (Fin a) PInf = True"
| "f_lt NInf (Fin b) = True"
| "f_lt NInf PInf = True"
| "f_lt _ _ = False"

definition f_gt0 :: "pyfloat \<Rightarrow> bool" where \<comment> \<open>\<open>v > 0\<close>\<close>
  "f_gt0 v = f_lt (Fin 0) v"

definition f_lt0 :: "pyfloat \<Rightarrow> bool" where \<comment> \<open>\<open>v < 0\<close>\<close>
  "f_lt0 v = f_lt v (Fin 0)"

definition f_le0 :: "pyfloat \<Rightarrow> bool" where \<comment> \<open>\<open>v <= 0\<close>\<close>
  "f_le0 v = (f_lt v (Fin 0) \<or> v = Fin 0)"

definition f_eq0 :: "pyfloat \<Rightarrow> bool" where \<comment> \<open>\<open>v == 0\<close>\<close>
  "f_eq0 v = (v = Fin 0)"

definition is_finite :: "pyfloat \<Rightarrow> bool" where
  "is_finite v = (case v of Fin q \<Rightarrow> True | _ \<Rightarrow> False)"

fun f_neg :: "pyfloat \<Rightarrow> pyfloat" where
  "f_neg (Fin a) = Fin (- a)"
| "f_neg PInf = NInf"
| "f_neg NInf = PInf"
| "f_neg NaN = NaN"

definition f_abs :: "pyfloat \<Rightarrow> pyfloat" where
  "f_abs v = (if f_lt0 v then f_neg v else v)"

fun f_add :: "pyfloat \<Rightarrow> pyfloat \<Rightarrow> pyfloat" where
  "f_add (Fin a) (Fin b) = round_double (a + b)"
| "f_add NaN _ = NaN"
| "f_add _ NaN = NaN"
| "f_add PInf NInf = NaN"
| "f_add NInf PInf = NaN"
| "f_add PInf _ = PInf"
| "f_add NInf _ = NInf"
| "f_add (Fin a) b = b"

text \<open>The sign of a value that is not NaN: \<open>-1\<close>, \<open>0\<close> or \<open>1\<close>.\<close>

fun f_sign :: "pyfloat \<Rightarrow> int" where
  "f_sign (Fin a) = (if a < 0 then - 1 else if a = 0 then 0 else 1)"
| "f_sign PInf = 1"
| "f_sign NInf = - 1"
| "f_sign NaN = 0"

definition inf_of_sign :: "int \<Rightarrow> pyfloat" where
  "inf_of_sign s = (if s = 0 then NaN else if 0 < s then PInf else NInf)"

fun f_mul :: "pyfloat \<Rightarrow> pyfloat \<Rightarrow> pyfloat" where
  "f_mul (Fin a) (Fin b) = round_double (a * b)"
| "f_mul NaN _ = NaN"
| "f_mul _ NaN = NaN"
| "f_mul a b = inf_of_sign (f_sign a * f_sign b)"

fun f_div :: "pyfloat \<Rightarrow> pyfloat \<Rightarrow> pyfloat" where
  "f_div (Fin a) (Fin b) =
     (if b = 0 then inf_of_sign (f_sign (Fin a)) else round_double (a / b))"
| "f_div NaN _ = NaN"
| "f_div _ NaN = NaN"
| "f_div (Fin a) _ = Fin 0"
| "f_div a (Fin b) = inf_of_sign (f_sign a * (if b < 0 then - 1 else 1))"
| "f_div _ _ = NaN"

text \<open>pandas \<open>Series.sum()\<close>: NaN entries are skipped, the empty sum is 0.\<close>

definition f_sum :: "pyfloat list \<Rightarrow> pyfloat" where
  "f_sum vs = foldl f_add (Fin 0) (filter (\<lambda>v. v \<noteq> NaN) vs)"

text \<open>numpy \<open>ndarray.sum()\<close>: NaN entries propagate.\<close>

definition np_sum :: "pyfloat list \<Rightarrow> pyfloat" where
  "np_sum vs = foldl f_add (Fin 0) vs"

definition fillna0 :: "pyfloat \<Rightarrow> pyfloat" where \<comment> \<open>\<open>.fillna(0)\<close>\<close>
  "fillna0 v = (if v = NaN then Fin 0 else v)"

definition f_round :: "nat \<Rightarrow> pyfloat \<Rightarrow> pyfloat" where
  \<comment> \<open>\<open>.round(k)\<close>: numpy scales by \<open>10 ^ k\<close>, rounds to an integer and scales back\<close>
  "f_round k v =
     (case f_mul v (Fin (10 ^ k)) of
        Fin q \<Rightarrow> f_div (Fin (of_int (round_half_even q))) (Fin (10 ^ k))
      | w \<Rightarrow> w)"

text \<open>\<open>int(v)\<close> on a float: truncation towards zero; NaN and the infinities raise.\<close>

definition py_int :: "pyfloat \<Rightarrow> error + int" where
  "py_int v =
     (case v of
        Fin q \<Rightarrow> Inr (if 0 \<le> q then \<lfloor>q\<rfloor> else - \<lfloor>- q\<rfloor>)
      | NaN \<Rightarrow> Inl ValueError
      | _ \<Rightarrow> Inl OverflowError)"

subsection \<open>Numbers as text\<close>

fun dec :: "nat \<Rightarrow> ustr" where \<comment> \<open>the decimal digits of a natural number\<close>
  "dec n = (if n < 10 then [48 + n] else dec (n div 10) @ [48 + n mod 10])"

declare dec.simps [simp del]

definition str_of_int :: "int \<Rightarrow> ustr" where \<comment> \<open>\<open>str(i)\<close> on an int\<close>
  "str_of_int i = (if i < 0 then 0x2D # dec (nat (- i)) else dec (nat i))"

definition zero_pad :: "nat \<Rightarrow> ustr \<Rightarrow> ustr" where
  "zero_pad k ds = replicate (k - length ds) 48 @ ds"

text \<open>\<open>format(v, '.kf')\<close>, the \<open>{v:.2f}\<close> and \<open>{p:.3f}\<close> of the f-strings.\<close>

definition fmt_f :: "nat \<Rightarrow> pyfloat \<Rightarrow> ustr" where
  "fmt_f k v =
     (case v of
        NaN \<Rightarrow> asc ''nan''
      | PInf \<Rightarrow> asc ''inf''
      | NInf \<Rightarrow> asc ''-inf''
      | Fin q \<Rightarrow>
          (let n = nat (round_half_even (\<bar>q\<bar> * 10 ^ k))
           in (if q < 0 then [0x2D] else []) @ dec (n div 10 ^ k) @
              (if k = 0 then [] else 0x2E # zero_pad k (dec (n mod 10 ^ k)))))"

subsection \<open>Reading numbers from text\<close>

definition is_digit :: "nat \<Rightarrow> bool" where
  "is_digit c \<longleftrightarrow> 48 \<le> c \<and> c \<le> 57"

definition isspace_ascii :: "nat \<Rightarrow> bool" where
  "isspace_ascii c \<longleftrightarrow> c = 32 \<or> (9 \<le> c \<and> c \<le> 13)"

definition nat_of_digits :: "ustr \<Rightarrow> nat" where
  "nat_of_digits ds = foldl (\<lambda>a c. 10 * a + (c - 48)) 0 ds"

definition lower_ascii :: "ustr \<Rightarrow> ustr" where
  "lower_ascii s = map (\<lambda>c. if 65 \<le> c \<and> c \<le> 90 then c + 32 else c) s"

text \<open>
  An optional exponent part \<open>e\<close>, \<open>e+\<close> or \<open>e-\<close> followed by at least one digit and
  nothing else; the empty rest is exponent 0.
\<close>

definition parse_exponent :: "ustr \<Rightarrow> int option" where
  "parse_exponent s =
     (case s of
        [] \<Rightarrow> Some 0
      | c # r \<Rightarrow>
          if c = 0x65 \<or> c = 0x45 then
            (let (neg, ds) =
               (case r of
                  [] \<Rightarrow> (False, [])
                | d # r' \<Rightarrow> if d = 0x2D then (True, r') else if d = 0x2B then (False, r')
                            else (False, r))
             in if ds \<noteq> [] \<and> list_all is_digit ds
                then Some (if neg then - int (nat_of_digits ds) else int (nat_of_digits ds))
                else None)
          else None)"

definition pow10 :: "int \<Rightarrow> rat" where
  "pow10 e = (if 0 \<le> e then 10 ^ nat e else 1 / 10 ^ nat (- e))"

text \<open>An unsigned decimal numeral: digits, an optional point and digits, an optional exponent.\<close>

definition parse_unsigned :: "ustr \<Rightarrow> rat option" where
  "parse_unsigned s =
     (let ip = takeWhile is_digit s;
          r1 = dropWhile is_digit s;
          (fp, r2) =
            (case r1 of
               [] \<Rightarrow> ([], [])
             | c # r \<Rightarrow> if c = 0x2E then (takeWhile is_digit r, dropWhile is_digit r)
                        else ([], r1))
      in if ip = [] \<and> fp = [] then None
         else (case parse_exponent r2 of
                 None \<Rightarrow> None
               | Some e \<Rightarrow>
                   Some (of_nat (nat_of_digits (ip @ fp)) / 10 ^ length fp * pow10 e)))"

definition parse_decimal :: "ustr \<Rightarrow> rat option" where \<comment> \<open>an optional sign, then the numeral\<close>
  "parse_decimal s =
     (case s of
        [] \<Rightarrow> None
      | c # r \<Rightarrow>
          if c = 0x2D then map_option uminus (parse_unsigned r)
          else if c = 0x2B then parse_unsigned r
          else parse_unsigned s)"

definition strip_ascii :: "ustr \<Rightarrow> ustr" where
  "strip_ascii s = rev (dropWhile isspace_ascii (rev (dropWhile isspace_ascii s)))"

text \<open>
  \<open>pd.to_numeric(..., errors='coerce')\<close> on one string. pandas reads a decimal numeral
  between optional ASCII white space, rounded to binary64; failing that it accepts the
  spellings of infinity, in any letter case; anything else, the empty string included,
  is coerced to NaN.
\<close>

definition to_numeric_str :: "ustr \<Rightarrow> pyfloat" where
  "to_numeric_str s =
     (case parse_decimal (strip_ascii s) of
        Some q \<Rightarrow> round_double q
      | None \<Rightarrow>
          (let w = lower_ascii s
           in if w \<in> set [asc ''inf'', asc ''+inf'', asc ''infinity'', asc ''+infinity''] then PInf
              else if w \<in> set [asc ''-inf'', asc ''-infinity''] then NInf
              else NaN))"

text \<open>
  \<open>float(s)\<close> on a string: Python strips white space, then reads a signed decimal
  numeral or one of \<open>inf\<close>, \<open>infinity\<close>, \<open>nan\<close> with an optional sign; otherwise it
  raises ValueError. (Underscores between digits are not modelled.)
\<close>

definition py_float_str :: "ustr \<Rightarrow> error + pyfloat" where
  "py_float_str s =
     (let t = strip s in
      case parse_decimal t of
        Some q \<Rightarrow> Inr (round_double q)
      | None \<Rightarrow>
          (let w = lower_ascii t
           in if w \<in> set [asc ''inf'', asc ''+inf'', asc ''infinity'', asc ''+infinity''] then Inr PInf
              else if w \<in> set [asc ''-inf'', asc ''-infinity''] then Inr NInf
              else if w \<in> set [asc ''nan'', asc ''+nan'', asc ''-nan''] then Inr NaN
              else Inl ValueError))"

text \<open>\<open>int(s)\<close> on a string: white space, an optional sign, digits; otherwise ValueError.\<close>

definition py_int_str :: "ustr \<Rightarrow> error + int" where
  "py_int_str s =
     (let t = strip s;
          (neg, ds) =
            (case t of
               [] \<Rightarrow> (False, [])
             | c # r \<Rightarrow> if c = 0x2D then (True, r) else if c = 0x2B then (False, r)
                        else (False, t))
      in if ds \<noteq> [] \<and> list_all is_digit ds
         then Inr (if neg then - int (nat_of_digits ds) else int (nat_of_digits ds))
         else Inl ValueError)"

section \<open>Tables\<close>

text \<open>
  A cell of a data frame is a string, an integer or a float (NaN is the missing value).
  A data frame is its column names and its rows. The model follows pandas on frames
  whose column names are distinct and whose rows have one cell per column, which is
  what \<open>read_csv\<close> and \<open>read_excel\<close> deliver (\<open>wf_table\<close>).
\<close>

datatype cell = Str ustr | Intg int | Flt pyfloat

record table =
  columns :: "ustr list"
  rows :: "cell list list"

definition wf_table :: "table \<Rightarrow> bool" where
  "wf_table t \<longleftrightarrow>
     distinct (columns t) \<and> list_all (\<lambda>r. length r = length (columns t)) (rows t)"

text \<open>
  \<open>str(x)\<close> and \<open>astype(str)\<close> on one cell. The text Python prints for a finite float
  (the shortest digits that read back as the same number, in exponent form for small and
  large magnitudes) is computed by Python alone and is the parameter \<open>ftext\<close>.
\<close>

definition py_str :: "(rat \<Rightarrow> ustr) \<Rightarrow> cell \<Rightarrow> ustr" where
  "py_str ftext x =
     (case x of
        Str s \<Rightarrow> s
      | Intg i \<Rightarrow> str_of_int i
      | Flt v \<Rightarrow>
          (case v of
             Fin q \<Rightarrow> ftext q
           | PInf \<Rightarrow> asc ''inf''
           | NInf \<Rightarrow> asc ''-inf''
           | NaN \<Rightarrow> asc ''nan''))"

definition to_numeric :: "cell \<Rightarrow> pyfloat" where
  \<comment> \<open>\<open>pd.to_numeric(..., errors='coerce')\<close> on one cell\<close>
  "to_numeric x =
     (case x of Str s \<Rightarrow> to_numeric_str s | Intg i \<Rightarrow> round_double (of_int i) | Flt v \<Rightarrow> v)"

fun index_of :: "'a \<Rightarrow> 'a list \<Rightarrow> nat option" where
  "index_of a [] = None"
| "index_of a (x # xs) = (if a = x then Some 0 else map_option Suc (index_of a xs))"

definition column :: "table \<Rightarrow> ustr \<Rightarrow> cell list option" where \<comment> \<open>\<open>df[name]\<close>\<close>
  "column t name =
     (case index_of name (columns t) of
        None \<Rightarrow> None
      | Some j \<Rightarrow> Some (map (\<lambda>r. r ! j) (rows t)))"

definition row_get :: "ustr list \<Rightarrow> cell list \<Rightarrow> ustr \<Rightarrow> cell option" where
  \<comment> \<open>\<open>row[name]\<close> on a row of a frame with these columns; None where Python raises KeyError\<close>
  "row_get cs r name = (case index_of name cs of None \<Rightarrow> None | Some j \<Rightarrow> Some (r ! j))"

definition set_col :: "ustr \<Rightarrow> cell list \<Rightarrow> table \<Rightarrow> table" where
  \<comment> \<open>\<open>df[name] = values\<close>: an existing column is overwritten, a new one is appended\<close>
  "set_col name vs t =
     (case index_of name (columns t) of
        Some j \<Rightarrow> t\<lparr>rows := map2 (\<lambda>r v. r[j := v]) (rows t) vs\<rparr>
      | None \<Rightarrow> t\<lparr>columns := columns t @ [name], rows := map2 (\<lambda>r v. r @ [v]) (rows t) vs\<rparr>)"

definition filter_rows :: "(cell list \<Rightarrow> bool) \<Rightarrow> table \<Rightarrow> table" where
  "filter_rows P t = t\<lparr>rows := filter P (rows t)\<rparr>"

definition df_empty :: "table \<Rightarrow> bool" where \<comment> \<open>\<open>df.empty\<close>\<close>
  "df_empty t \<longleftrightarrow> columns t = [] \<or> rows t = []"

subsection \<open>The column and file name markers of \<open>app.py\<close>\<close>

definition s_heji :: ustr where \<comment> \<open>he ji, "total"\<close>
  "s_heji = [0x5408, 0x8BA1]"

definition s_shu :: ustr where \<comment> \<open>shu, "count"\<close>
  "s_shu = [0x6570]"

definition s_bi :: ustr where \<comment> \<open>bi, "ratio"\<close>
  "s_bi = [0x6BD4]"

definition s_baobiao :: ustr where \<comment> \<open>bao biao, "report"\<close>
  "s_baobiao = [0x62A5, 0x8868]"

definition s_bingzhong :: ustr where \<comment> \<open>bing zhong, "disease"\<close>
  "s_bingzhong = [0x75C5, 0x79CD]"

definition s_benqi :: ustr where \<comment> \<open>ben qi, "current period"\<close>
  "s_benqi = [0x672C, 0x671F]"

definition s_shijian :: ustr where \<comment> \<open>shi jian, "time"\<close>
  "s_shijian = [0x65F6, 0x95F4]"

definition s_fabing :: ustr where \<comment> \<open>fa bing, "onset"\<close>
  "s_fabing = [0x53D1, 0x75C5]"

definition s_nianling :: ustr where \<comment> \<open>nian ling, "age"\<close>
  "s_nianling = [0x5E74, 0x9F84]"

definition s_zu :: ustr where \<comment> \<open>zu, "group"\<close>
  "s_zu = [0x7EC4]"

definition s_xing :: ustr where \<comment> \<open>xing, the first character of "sex"\<close>
  "s_xing = [0x6027]"

definition s_nan :: ustr where \<comment> \<open>nan, "male"\<close>
  "s_nan = [0x7537]"

definition s_renqun :: ustr where \<comment> \<open>ren qun, "population"\<close>
  "s_renqun = [0x4EBA, 0x7FA4]"

definition s_zhiye :: ustr where \<comment> \<open>zhi ye, "occupation"\<close>
  "s_zhiye = [0x804C, 0x4E1A]"

definition s_diqu :: ustr where \<comment> \<open>di qu, "area"\<close>
  "s_diqu = [0x5730, 0x533A]"

definition s_xiangzhen :: ustr where \<comment> \<open>xiang zhen, "township"\<close>
  "s_xiangzhen = [0x4E61, 0x9547]"

definition s_jiedao :: ustr where \<comment> \<open>jie dao, "street"\<close>
  "s_jiedao = [0x8857, 0x9053]"

definition col_cases :: ustr where \<comment> \<open>ben qi fa bing shu, "cases in the current period"\<close>
  "col_cases = [0x672C, 0x671F, 0x53D1, 0x75C5, 0x6570]"

definition col_mom :: ustr where \<comment> \<open>yu shang qi bi (%), "against the previous period (%)"\<close>
  "col_mom = [0x4E0E, 0x4E0A, 0x671F, 0x6BD4, 0xFF08, 0x25, 0xFF09]"

definition col_yoy :: ustr where
  \<comment> \<open>yu qu nian tong qi bi (%), "against the same period of last year (%)"\<close>
  "col_yoy = [0x4E0E, 0x53BB, 0x5E74, 0x540C, 0x671F, 0x6BD4, 0xFF08, 0x25, 0xFF09]"

definition col_age_group :: ustr where \<comment> \<open>nian ling zu, "age group"\<close>
  "col_age_group = [0x5E74, 0x9F84, 0x7EC4]"

definition col_count :: ustr where \<comment> \<open>fa bing shu, "cases"\<close>
  "col_count = [0x53D1, 0x75C5, 0x6570]"

definition col_total :: ustr where \<comment> \<open>he ji, "total"\<close>
  "col_total = [0x5408, 0x8BA1]"

definition col_share :: ustr where \<comment> \<open>gou cheng bi(%), "share (%)"\<close>
  "col_share = [0x6784, 0x6210, 0x6BD4, 0x28, 0x25, 0x29]"

definition col_chi2 :: ustr where \<comment> \<open>chi-squared zhi, "chi-squared value"\<close>
  "col_chi2 = [0x3C7, 0xB2, 0x503C]"

definition col_p :: ustr where \<comment> \<open>P zhi, "P value"\<close>
  "col_p = [0x50, 0x503C]"

section \<open>Cleaning the numeric columns of the summary report\<close>

text \<open>
  Line 222 on one cell:
  \<open>pd.to_numeric(df[c].astype(str).str.replace(',', '').str.replace('-', '0'),
  errors='coerce').fillna(0)\<close>.
\<close>

definition clean_text :: "ustr \<Rightarrow> ustr" where
  "clean_text s = replace_char 0x2D (asc ''0'') (replace_char 0x2C [] s)"

definition normalize_number :: "ustr \<Rightarrow> pyfloat" where
  "normalize_number s = fillna0 (to_numeric_str (clean_text s))"

definition clean_numeric_cell :: "(rat \<Rightarrow> ustr) \<Rightarrow> cell \<Rightarrow> cell" where
  "clean_numeric_cell ftext x = Flt (normalize_number (py_str ftext x))"

definition is_numeric_header :: "ustr \<Rightarrow> bool" where
  \<comment> \<open>\<open>any(k in str(c) for k in [shu, bi])\<close>\<close>
  "is_numeric_header c = list_ex (\<lambda>k. str_in k c) [s_shu, s_bi]"

definition clean_summary :: "(rat \<Rightarrow> ustr) \<Rightarrow> table \<Rightarrow> table" where
  \<comment> \<open>the loop of lines 220 to 222\<close>
  "clean_summary ftext t =
     t\<lparr>rows :=
         map (\<lambda>r. map2 (\<lambda>c x. if is_numeric_header c then clean_numeric_cell ftext x else x)
                     (columns t) r)
           (rows t)\<rparr>"

text \<open>
  Line 62, the coercion of the statistics table, on one cell:
  \<open>pd.to_numeric(stats_df[c], errors='coerce').fillna(0)\<close>.
\<close>

definition coerce_cell :: "cell \<Rightarrow> pyfloat" where
  "coerce_cell x = fillna0 (to_numeric x)"

section \<open>Age groups\<close>

definition bins :: "int list" where \<comment> \<open>\<open>range(0, 101, 5)\<close>\<close>
  "bins = map (\<lambda>k. 5 * int k) [0..<21]"

definition labels_all :: "ustr list" where
  \<comment> \<open>\<open>[f"{i}-{i+4}" for i in range(0, 96, 5)] + ["100+"]\<close>\<close>
  "labels_all = map (\<lambda>k. dec (5 * k) @ asc ''-'' @ dec (5 * k + 4)) [0..<20] @ [asc ''100+'']"

definition labels :: "ustr list" where \<comment> \<open>\<open>labels[:len(bins)-1]\<close>\<close>
  "labels = take (length bins - 1) labels_all"

text \<open>
  \<open>pd.cut(x, bins=bins, labels=labels, right=False)\<close> on one value: the index of the bin
  \<open>bins[i] <= v < bins[i+1]\<close>, or no bin (pandas then gives NaN).
\<close>

definition in_bin :: "pyfloat \<Rightarrow> nat \<Rightarrow> bool" where
  "in_bin v i \<longleftrightarrow>
     \<not> f_lt v (Fin (of_int (bins ! i))) \<and> f_lt v (Fin (of_int (bins ! (i + 1))))"

definition cut :: "pyfloat \<Rightarrow> nat option" where
  "cut v = find (in_bin v) [0..<length bins - 1]"

definition group_cell :: "nat option \<Rightarrow> cell" where
  "group_cell g = (case g of Some i \<Rightarrow> Str (labels ! i) | None \<Rightarrow> Flt NaN)"

text \<open>
  \<open>df[col_age_group].value_counts().sort_index().reset_index()\<close> with the two column
  names of line 196: one row for every category, in the order of the categories, with
  the number of rows in it; rows without a bin are not counted.
\<close>

definition value_counts :: "nat option list \<Rightarrow> table" where
  "value_counts groups =
     \<lparr>columns = [col_age_group, col_count],
      rows = map (\<lambda>i. [Str (labels ! i), Intg (int (length (filter (\<lambda>g. g = Some i) groups)))])
               [0..<length labels]\<rparr>"

text \<open>
  \<open>bin_ages\<close>. The cross table by sex,
  \<open>df.groupby([col_age_group, sex_col]).size().unstack(fill_value=0)\<close> with the index
  reset, is computed by pandas alone and is the parameter \<open>xtab\<close> (from the age groups
  and the sex column); where it raises (None), the \<open>except: pass\<close> of line 198 returns the
  frame as changed so far.
\<close>

definition bin_ages :: "(nat option list \<Rightarrow> cell list \<Rightarrow> table option) \<Rightarrow> table \<Rightarrow> table" where
  "bin_ages xtab df =
     (case find (\<lambda>c. str_in s_nianling c \<and> \<not> str_in s_zu c) (columns df) of
        None \<Rightarrow> df
      | Some age_col \<Rightarrow>
          (case column df age_col of
             None \<Rightarrow> df
           | Some xs \<Rightarrow>
               (let ages = map to_numeric xs;
                    df1 = set_col age_col (map Flt ages) df;
                    groups = map cut ages;
                    df2 = set_col col_age_group (map group_cell groups) df1
                in case find (\<lambda>c. str_in s_xing c) (columns df2) of
                     None \<Rightarrow> value_counts groups
                   | Some sex_col \<Rightarrow>
                       (case column df2 sex_col of
                          None \<Rightarrow> df2
                        | Some sx \<Rightarrow> (case xtab groups sx of Some g \<Rightarrow> g | None \<Rightarrow> df2)))))"

section \<open>Ingestion\<close>

text \<open>
  An uploaded file is its name and what the reader makes of it: the feature list of a
  GeoJSON document, a data frame, or a failure of the reader (\<open>json.load\<close>,
  \<open>read_csv\<close> with both encodings, \<open>read_excel\<close>), which raises.
\<close>

datatype role = Summary | Time | Age | Pop | Area

datatype 'g payload = Features 'g | Sheet table | Unreadable

record 'g upload =
  fname :: ustr
  payload :: "'g payload"

datatype log_entry = LogMap ustr | LogStored role ustr | LogError ustr

record 'g parser =
  data :: "role \<Rightarrow> table option"
  geojson :: "'g option"

definition init_parser :: "'g parser" where \<comment> \<open>\<open>AdvancedParser.__init__\<close>\<close>
  "init_parser = \<lparr>data = (\<lambda>r. None), geojson = None\<rparr>"

text \<open>
  \<open>df.iloc[:, 0] = df.iloc[:, 0].astype(str)\<close>. Without a column the indexing raises.
  The assignment writes text into the column in place; pandas 3 refuses that for a
  column of numeric type (every cell a number, at least one row) and raises TypeError.
\<close>

definition is_number_cell :: "cell \<Rightarrow> bool" where
  "is_number_cell x = (case x of Str s \<Rightarrow> False | Intg i \<Rightarrow> True | Flt v \<Rightarrow> True)"

definition numeric_column :: "cell list \<Rightarrow> bool" where
  "numeric_column xs \<longleftrightarrow> xs \<noteq> [] \<and> list_all is_number_cell xs"

definition str_col0 :: "(rat \<Rightarrow> ustr) \<Rightarrow> table \<Rightarrow> error + table" where
  "str_col0 ftext df =
     (if columns df = [] then Inl IndexError
      else if numeric_column (map (\<lambda>r. r ! 0) (rows df)) then Inl TypeError
      else Inr (df\<lparr>rows := map (\<lambda>r. case r of [] \<Rightarrow> [] | x # xs \<Rightarrow> Str (py_str ftext x) # xs)
                               (rows df)\<rparr>))"

definition area_table :: "(rat \<Rightarrow> ustr) \<Rightarrow> table \<Rightarrow> table" where \<comment> \<open>lines 239 to 241\<close>
  "area_table ftext df =
     \<lparr>columns = [asc ''Name'', asc ''Cases''],
      rows = map (\<lambda>r. [r ! 0,
                        Flt (fillna0 (to_numeric_str
                               (replace_char 0x2C [] (py_str ftext (r ! 1)))))])
               (rows df)\<rparr>"

definition is_geo_name :: "ustr \<Rightarrow> bool" where \<comment> \<open>the test of line 206\<close>
  "is_geo_name n \<longleftrightarrow> ends_with n (asc ''.json'') \<or> ends_with n (asc ''.geojson'')"

text \<open>
  The tests of the \<open>if\<close>/\<open>elif\<close> chain of lines 218 to 237, in their order: the role whose
  branch a frame with this file name takes, or none.
\<close>

definition route_of :: "ustr \<Rightarrow> table \<Rightarrow> role option" where
  "route_of n df =
     (let cols = concat (columns df) in
      if str_in s_baobiao n \<or> (str_in s_bingzhong cols \<and> str_in s_benqi cols) then Some Summary
      else if str_in s_shijian n \<or> (str_in s_shijian cols \<and> str_in s_fabing cols) then Some Time
      else if str_in s_nianling n \<or> str_in s_nan cols then Some Age
      else if str_in s_renqun n \<or> str_in s_zhiye cols then Some Pop
      else if str_in s_diqu n \<or> str_in s_xiangzhen cols \<or> str_in s_jiedao cols then Some Area
      else None)"

text \<open>
  The bodies of the branches: the frame that is stored, or the exception the branch
  raises, or nothing (an area frame with fewer than two columns, line 238).
\<close>

datatype outcome = Stored table | Raised error | Skipped

definition process_as ::
  "(rat \<Rightarrow> ustr) \<Rightarrow> (nat option list \<Rightarrow> cell list \<Rightarrow> table option) \<Rightarrow> role \<Rightarrow> table \<Rightarrow> outcome" where
  "process_as ftext xtab r df =
     (case r of
        Summary \<Rightarrow> Stored (clean_summary ftext df)
      | Time \<Rightarrow> Stored df
      | Age \<Rightarrow>
          (case str_col0 ftext (bin_ages xtab df) of Inr t \<Rightarrow> Stored t | Inl e \<Rightarrow> Raised e)
      | Pop \<Rightarrow> (case str_col0 ftext df of Inr t \<Rightarrow> Stored t | Inl e \<Rightarrow> Raised e)
      | Area \<Rightarrow> if 2 \<le> length (columns df) then Stored (area_table ftext df) else Skipped)"

definition store :: "'g parser \<Rightarrow> role \<Rightarrow> table \<Rightarrow> ustr \<Rightarrow> 'g parser \<times> log_entry list" where
  \<comment> \<open>\<open>self.data[role] = df\<close> and the log line\<close>
  "store st r t n = (st\<lparr>data := (data st)(r := Some t)\<rparr>, [LogStored r n])"

text \<open>The body of the loop of \<open>parse_files\<close> for one file; an exception is caught and logged.\<close>

definition parse_file ::
  "(rat \<Rightarrow> ustr) \<Rightarrow> (nat option list \<Rightarrow> cell list \<Rightarrow> table option) \<Rightarrow> 'g parser \<Rightarrow> 'g upload
   \<Rightarrow> 'g parser \<times> log_entry list" where
  "parse_file ftext xtab st f =
     (if is_geo_name (fname f) then
        (case payload f of
           Features g \<Rightarrow> (st\<lparr>geojson := Some g\<rparr>, [LogMap (fname f)])
         | _ \<Rightarrow> (st, [LogError (fname f)]))
      else
        (case payload f of
           Sheet df \<Rightarrow>
             (case route_of (fname f) df of
                None \<Rightarrow> (st, [])
              | Some r \<Rightarrow>
                  (case process_as ftext xtab r df of
                     Stored t \<Rightarrow> store st r t (fname f)
                   | Raised e \<Rightarrow> (st, [LogError (fname f)])
                   | Skipped \<Rightarrow> (st, [])))
         | _ \<Rightarrow> (st, [LogError (fname f)])))"


section \<open>The report generator\<close>

subsection \<open>The fixed text of the report\<close>

definition sec1_a :: ustr where \<comment> \<open>line 136 to the count of diseases: the headings and 'this month the district reported notifiable diseases **'\<close>
  "sec1_a =
   [0xA, 0x23, 0x23, 0x23, 0x20, 0x4E00, 0x3001, 0x20, 0x8FD1, 0x671F, 0x6982, 0x51B5, 0xA,
    0x2A, 0x2A, 0x28, 0x4E00, 0x29, 0x20, 0x4F20, 0x67D3, 0x75C5, 0x62A5, 0x544A, 0x4FE1,
    0x606F, 0x7BA1, 0x7406, 0x7CFB, 0x7EDF, 0x2A, 0x2A, 0xA, 0x31, 0x2E, 0x20, 0x2A, 0x2A,
    0x4F20, 0x67D3, 0x75C5, 0x75AB, 0x60C5, 0x2A, 0x2A, 0xFF1A, 0x672C, 0x6708, 0x6211,
    0x533A, 0x5171, 0x62A5, 0x544A, 0x6CD5, 0x5B9A, 0x4F20, 0x67D3, 0x75C5, 0x20, 0x2A, 0x2A]"

definition sec1_b :: ustr where \<comment> \<open>'** kinds **'\<close>
  "sec1_b =
   [0x2A, 0x2A, 0x20, 0x79CD, 0x20, 0x2A, 0x2A]"

definition sec1_c :: ustr where \<comment> \<open>'** cases.' and, on the next line, 'compared with last month'\<close>
  "sec1_c =
   [0x2A, 0x2A, 0x20, 0x4F8B, 0x3002, 0xA, 0x20, 0x20, 0x20, 0x4E0E, 0x4E0A, 0x6708, 0x76F8,
    0x6BD4]"

definition sec1_d :: ustr where \<comment> \<open>'; compared with the same period of last year'\<close>
  "sec1_d =
   [0xFF1B, 0x4E0E, 0x53BB, 0x5E74, 0x540C, 0x671F, 0x76F8, 0x6BD4]"

definition sec1_e :: ustr where \<comment> \<open>the full stop and the last, blank line\<close>
  "sec1_e =
   [0x3002, 0xA, 0x20, 0x20, 0x20, 0x20, 0x20, 0x20, 0x20, 0x20]"

definition sec2_a :: ustr where \<comment> \<open>'2. Class B diseases: this month reported **'\<close>
  "sec2_a =
   [0xA, 0x32, 0x2E, 0x20, 0x2A, 0x2A, 0x4E59, 0x7C7B, 0x4F20, 0x67D3, 0x75C5, 0x2A, 0x2A,
    0xFF1A, 0x672C, 0x6708, 0x62A5, 0x544A, 0x20, 0x2A, 0x2A]"

definition sec2_b :: ustr where \<comment> \<open>'** kinds, in total **'\<close>
  "sec2_b =
   [0x2A, 0x2A, 0x20, 0x79CD, 0xFF0C, 0x5408, 0x8BA1, 0x20, 0x2A, 0x2A]"

definition sec2_c :: ustr where \<comment> \<open>'** cases.' and 'the diseases with the most cases are: **'\<close>
  "sec2_c =
   [0x2A, 0x2A, 0x20, 0x4F8B, 0x3002, 0xA, 0x20, 0x20, 0x20, 0x53D1, 0x75C5, 0x6570, 0x5C45,
    0x524D, 0x51E0, 0x4F4D, 0x7684, 0x75C5, 0x79CD, 0x4E3A, 0xFF1A, 0x2A, 0x2A]"

definition sec2_d :: ustr where \<comment> \<open>'**.' and the last, blank line\<close>
  "sec2_d =
   [0x2A, 0x2A, 0x3002, 0xA, 0x20, 0x20, 0x20, 0x20, 0x20, 0x20, 0x20, 0x20, 0x20, 0x20, 0x20,
    0x20]"

definition sec3_a :: ustr where \<comment> \<open>'3. Class C diseases: this month reported **'\<close>
  "sec3_a =
   [0xA, 0x33, 0x2E, 0x20, 0x2A, 0x2A, 0x4E19, 0x7C7B, 0x4F20, 0x67D3, 0x75C5, 0x2A, 0x2A,
    0xFF1A, 0x672C, 0x6708, 0x62A5, 0x544A, 0x20, 0x2A, 0x2A]"

definition sec3_b :: ustr where \<comment> \<open>'** kinds, in total **'\<close>
  "sec3_b =
   [0x2A, 0x2A, 0x20, 0x79CD, 0xFF0C, 0x5408, 0x8BA1, 0x20, 0x2A, 0x2A]"

definition sec3_c :: ustr where \<comment> \<open>'** cases.' and 'the main epidemic diseases are: **'\<close>
  "sec3_c =
   [0x2A, 0x2A, 0x20, 0x4F8B, 0x3002, 0xA, 0x20, 0x20, 0x20, 0x4E3B, 0x8981, 0x6D41, 0x884C,
    0x75C5, 0x79CD, 0x4E3A, 0xFF1A, 0x2A, 0x2A]"

definition sec3_d :: ustr where \<comment> \<open>'**.' and the last, blank line\<close>
  "sec3_d =
   [0x2A, 0x2A, 0x3002, 0xA, 0x20, 0x20, 0x20, 0x20, 0x20, 0x20, 0x20, 0x20, 0x20, 0x20, 0x20,
    0x20]"

definition sec2_none :: ustr where \<comment> \<open>'2. Class B diseases: none reported.'\<close>
  "sec2_none =
   [0xA, 0x32, 0x2E, 0x20, 0x2A, 0x2A, 0x4E59, 0x7C7B, 0x4F20, 0x67D3, 0x75C5, 0x2A, 0x2A,
    0xFF1A, 0x65E0, 0x62A5, 0x544A, 0x3002, 0xA]"

definition sec3_none :: ustr where \<comment> \<open>'3. Class C diseases: none reported.'\<close>
  "sec3_none =
   [0xA, 0x33, 0x2E, 0x20, 0x2A, 0x2A, 0x4E19, 0x7C7B, 0x4F20, 0x67D3, 0x75C5, 0x2A, 0x2A,
    0xFF1A, 0x65E0, 0x62A5, 0x544A, 0x3002, 0xA]"

definition msg_missing :: ustr where \<comment> \<open>warning sign, 'the epidemic report is missing, no overview can be generated.'\<close>
  "msg_missing =
   [0x26A0, 0xFE0F, 0x20, 0x7F3A, 0x5931, 0x75AB, 0x60C5, 0x5206, 0x6790, 0x62A5, 0x8868,
    0xFF0C, 0x65E0, 0x6CD5, 0x751F, 0x6210, 0x6982, 0x51B5, 0x3002]"

definition msg_no_cases :: ustr where \<comment> \<open>'no reported cases.'\<close>
  "msg_no_cases =
   [0x65E0, 0x62A5, 0x544A, 0x75C5, 0x4F8B, 0x3002]"

definition msg_none :: ustr where \<comment> \<open>'none'\<close>
  "msg_none =
   [0x65E0]"

definition sep_list :: ustr where \<comment> \<open>the enumeration comma\<close>
  "sep_list =
   [0x3001]"

definition w_up :: ustr where \<comment> \<open>shang sheng, 'rose by'\<close>
  "w_up =
   [0x4E0A, 0x5347]"

definition w_down :: ustr where \<comment> \<open>xia jiang, 'fell by'\<close>
  "w_down =
   [0x4E0B, 0x964D]"

definition w_flat :: ustr where \<comment> \<open>chi ping, 'unchanged'\<close>
  "w_flat =
   [0x6301, 0x5E73]"

definition desc_a :: ustr where \<comment> \<open>full-width opening parenthesis\<close>
  "desc_a =
   [0xFF08]"

definition desc_b :: ustr where \<comment> \<open>'cases, share'\<close>
  "desc_b =
   [0x4F8B, 0xFF0C, 0x5360, 0x6BD4]"

definition desc_c :: ustr where \<comment> \<open>'%, against last month'\<close>
  "desc_c =
   [0x25, 0xFF0C, 0x8F83, 0x4E0A, 0x6708]"

definition desc_d :: ustr where \<comment> \<open>', against the same period of last year'\<close>
  "desc_d =
   [0xFF0C, 0x8F83, 0x53BB, 0x5E74, 0x540C, 0x671F]"

definition desc_e :: ustr where \<comment> \<open>full-width closing parenthesis\<close>
  "desc_e =
   [0xFF09]"

subsection \<open>Reading cells as numbers\<close>

definition py_float :: "cell \<Rightarrow> error + pyfloat" where \<comment> \<open>\<open>float(val)\<close>\<close>
  "py_float x =
     (case x of
        Str s \<Rightarrow> py_float_str s
      | Intg i \<Rightarrow> Inr (round_double (of_int i))
      | Flt v \<Rightarrow> Inr v)"

definition py_int_cell :: "cell \<Rightarrow> error + int" where \<comment> \<open>\<open>int(val)\<close>\<close>
  "py_int_cell x = (case x of Str s \<Rightarrow> py_int_str s | Intg i \<Rightarrow> Inr i | Flt v \<Rightarrow> py_int v)"

definition cell_num :: "cell \<Rightarrow> error + pyfloat" where
  \<comment> \<open>the number compared by \<open>x > 0\<close> and \<open>x <= 0\<close>; a string against a number raises TypeError\<close>
  "cell_num x =
     (case x of
        Str s \<Rightarrow> Inl TypeError
      | Intg i \<Rightarrow> Inr (round_double (of_int i))
      | Flt v \<Rightarrow> Inr v)"

fun cells_num :: "cell list \<Rightarrow> error + pyfloat list" where
  "cells_num [] = Inr []"
| "cells_num (x # xs) =
     (case cell_num x of
        Inl e \<Rightarrow> Inl e
      | Inr v \<Rightarrow> (case cells_num xs of Inl e \<Rightarrow> Inl e | Inr vs \<Rightarrow> Inr (v # vs)))"

subsection \<open>Sorting\<close>

text \<open>
  \<open>df_sub.sort_values(col_cases, ascending=False)\<close> sorts with the default kind, quicksort,
  which pandas documents as not stable. The model takes the sort as a parameter:
  \<open>srt keys\<close> is the order in which the rows are taken, and \<open>sorts_desc\<close> is what pandas
  promises of it: a permutation of the row positions along which the keys descend, with
  NaN last. \<open>desc_rank\<close> is the place of a key in that order.
\<close>

definition desc_rank :: "pyfloat \<Rightarrow> nat \<times> rat" where
  "desc_rank v = (case v of PInf \<Rightarrow> (0, 0) | Fin q \<Rightarrow> (1, - q) | NInf \<Rightarrow> (2, 0) | NaN \<Rightarrow> (3, 0))"

definition sorts_desc :: "(pyfloat list \<Rightarrow> nat list) \<Rightarrow> bool" where
  "sorts_desc srt \<longleftrightarrow>
     (\<forall>ks. mset (srt ks) = mset [0..<length ks]
           \<and> sorted (map (\<lambda>i. desc_rank (ks ! i)) (srt ks)))"

text \<open>Two sorts that keep the promise: ties in the order of the input, and ties reversed.\<close>

definition stable_sort_desc :: "pyfloat list \<Rightarrow> nat list" where
  "stable_sort_desc ks = sort_key (\<lambda>i. desc_rank (ks ! i)) [0..<length ks]"

definition reversing_sort_desc :: "pyfloat list \<Rightarrow> nat list" where
  "reversing_sort_desc ks = sort_key (\<lambda>i. desc_rank (ks ! i)) (rev [0..<length ks])"

subsection \<open>\<open>ReportGenerator\<close>\<close>

definition fmt_trend :: "cell \<Rightarrow> ustr" where
  "fmt_trend val =
     (case py_float val of
        Inl e \<Rightarrow> w_flat
      | Inr v \<Rightarrow>
          if f_gt0 v then w_up @ fmt_f 2 v @ asc ''%''
          else if f_lt0 v then w_down @ fmt_f 2 (f_abs v) @ asc ''%''
          else w_flat)"

definition row_get_default :: "ustr list \<Rightarrow> cell list \<Rightarrow> ustr \<Rightarrow> cell" where
  \<comment> \<open>\<open>row.get(name, 0)\<close>\<close>
  "row_get_default cs r name = (case row_get cs r name of None \<Rightarrow> Intg 0 | Some x \<Rightarrow> x)"

fun join :: "ustr \<Rightarrow> ustr list \<Rightarrow> ustr" where \<comment> \<open>\<open>sep.join(xs)\<close>\<close>
  "join sep [] = []"
| "join sep [x] = x"
| "join sep (x # y # ys) = x @ sep @ join sep (y # ys)"

text \<open>
  The loop of lines 102 to 115 over the rows it is given. \<open>total_cases\<close> is the numpy
  number the caller passes, so the division follows numpy.
\<close>

fun top_list ::
  "(rat \<Rightarrow> ustr) \<Rightarrow> ustr list \<Rightarrow> pyfloat \<Rightarrow> cell list list \<Rightarrow> error + ustr list" where
  "top_list ftext cs total_cases [] = Inr []"
| "top_list ftext cs total_cases (r # rs) =
     (case row_get cs r col_cases of
        None \<Rightarrow> Inl KeyError
      | Some x \<Rightarrow>
          (case cell_num x of
             Inl e \<Rightarrow> Inl e
           | Inr v \<Rightarrow>
               if f_le0 v then top_list ftext cs total_cases rs
               else
                 (case py_int_cell x of
                    Inl e \<Rightarrow> Inl e
                  | Inr cases \<Rightarrow>
                      (let percent = f_mul (f_div (round_double (of_int cases)) total_cases) (Fin 100);
                           mom = row_get_default cs r col_mom;
                           yoy = row_get_default cs r col_yoy;
                           desc = py_str ftext (r ! 0) @ desc_a @ str_of_int cases @ desc_b @
                                  fmt_f 2 percent @ desc_c @ fmt_trend mom @ desc_d @
                                  fmt_trend yoy @ desc_e
                       in case top_list ftext cs total_cases rs of
                            Inl e \<Rightarrow> Inl e
                          | Inr ds \<Rightarrow> Inr (desc # ds)))))"

definition get_top_diseases_text ::
  "(rat \<Rightarrow> ustr) \<Rightarrow> (pyfloat list \<Rightarrow> nat list) \<Rightarrow> table \<Rightarrow> pyfloat \<Rightarrow> error + ustr" where
  "get_top_diseases_text ftext srt df_sub total_cases =
     (if df_empty df_sub then Inr msg_no_cases
      else
        (case column df_sub col_cases of
           None \<Rightarrow> Inl KeyError
         | Some xs \<Rightarrow>
             (case cells_num xs of
                Inl e \<Rightarrow> Inl e
              | Inr keys \<Rightarrow>
                  (let sorted_rows = map (\<lambda>i. rows df_sub ! i) (srt keys)
                   in case top_list ftext (columns df_sub) total_cases (take 3 sorted_rows) of
                        Inl e \<Rightarrow> Inl e
                      | Inr ds \<Rightarrow> Inr (if ds = [] then msg_no_cases else join sep_list ds)))))"

text \<open>Lines 146 to 155 and 160 to 169: the paragraph of one class.\<close>

definition class_section ::
  "(rat \<Rightarrow> ustr) \<Rightarrow> (pyfloat list \<Rightarrow> nat list) \<Rightarrow> table
   \<Rightarrow> ustr \<Rightarrow> ustr \<Rightarrow> ustr \<Rightarrow> ustr \<Rightarrow> ustr \<Rightarrow> error + ustr" where
  "class_section ftext srt df_b sa sb sc sd snone =
     (if df_empty df_b then Inr snone
      else
        (case column df_b col_cases of
           None \<Rightarrow> Inl KeyError
         | Some xs \<Rightarrow>
             (case cells_num xs of
                Inl e \<Rightarrow> Inl e
              | Inr vs \<Rightarrow>
                  (let b_cases = f_sum vs;
                       b_count = length (filter f_gt0 vs)
                   in case (if f_gt0 b_cases then get_top_diseases_text ftext srt df_b b_cases
                            else Inr msg_none) of
                        Inl e \<Rightarrow> Inl e
                      | Inr b_text \<Rightarrow>
                          (case py_int b_cases of
                             Inl e \<Rightarrow> Inl e
                           | Inr n \<Rightarrow>
                               Inr (sa @ dec b_count @ sb @ str_of_int n @ sc @ b_text @ sd))))))"

definition is_total_row :: "(rat \<Rightarrow> ustr) \<Rightarrow> cell list \<Rightarrow> bool" where
  \<comment> \<open>\<open>df.iloc[:,0].astype(str).str.contains(s_heji)\<close> on one row\<close>
  "is_total_row ftext r = str_in s_heji (py_str ftext (r ! 0))"

text \<open>
  \<open>generate_full_report\<close> on a summary frame: the three paragraphs, or the exception
  that escapes (no \<open>try\<close> encloses lines 122 to 171).
\<close>

definition report_sections ::
  "(rat \<Rightarrow> ustr) \<Rightarrow> (pyfloat list \<Rightarrow> nat list) \<Rightarrow> table
   \<Rightarrow> error + (ustr \<times> ustr \<times> ustr)" where
  "report_sections ftext srt df =
     (if columns df = [] then Inl IndexError
      else
        (case filter (is_total_row ftext) (rows df) of
           [] \<Rightarrow> Inl IndexError
         | total_row # others \<Rightarrow>
             (case row_get (columns df) total_row col_cases of
                None \<Rightarrow> Inl KeyError
              | Some tc \<Rightarrow>
                  (case py_int_cell tc of
                     Inl e \<Rightarrow> Inl e
                   | Inr total_cases \<Rightarrow>
                       (let total_mom = row_get_default (columns df) total_row col_mom;
                            total_yoy = row_get_default (columns df) total_row col_yoy;
                            df_detail = filter_rows (\<lambda>r. \<not> is_total_row ftext r) df
                        in case column df_detail col_cases of
                             None \<Rightarrow> Inl KeyError
                           | Some xs \<Rightarrow>
                               (case cells_num xs of
                                  Inl e \<Rightarrow> Inl e
                                | Inr vs \<Rightarrow>
                                    (let reported_count = length (filter f_gt0 vs);
                                         section_1 =
                                           sec1_a @ dec reported_count @ sec1_b @
                                           str_of_int total_cases @ sec1_c @ fmt_trend total_mom @
                                           sec1_d @ fmt_trend total_yoy @ sec1_e;
                                         df_class =
                                           set_col (asc ''Class'')
                                             (map (\<lambda>r. Str (get_disease_class (py_str ftext (r ! 0))))
                                                (rows df_detail))
                                             df_detail;
                                         of_class = (\<lambda>c. filter_rows
                                           (\<lambda>r. row_get (columns df_class) r (asc ''Class'') = Some (Str c))
                                           df_class)
                                     in case class_section ftext srt (of_class cls_B)
                                               sec2_a sec2_b sec2_c sec2_d sec2_none of
                                          Inl e \<Rightarrow> Inl e
                                        | Inr section_2 \<Rightarrow>
                                            (case class_section ftext srt (of_class cls_C)
                                                    sec3_a sec3_b sec3_c sec3_d sec3_none of
                                               Inl e \<Rightarrow> Inl e
                                             | Inr section_3 \<Rightarrow>
                                                 Inr (section_1, section_2, section_3)))))))))"

definition generate_full_report ::
  "(rat \<Rightarrow> ustr) \<Rightarrow> (pyfloat list \<Rightarrow> nat list) \<Rightarrow> (role \<Rightarrow> table option) \<Rightarrow> error + ustr" where
  "generate_full_report ftext srt d =
     (case d Summary of
        None \<Rightarrow> Inr msg_missing
      | Some df \<Rightarrow>
          (case report_sections ftext srt df of
             Inl e \<Rightarrow> Inl e
           | Inr (section_1, section_2, section_3) \<Rightarrow> Inr (section_1 @ section_2 @ section_3)))"

section \<open>Unfolding the markers, rounding small numbers\<close>

lemmas marker_defs =
  s_heji_def s_shu_def s_bi_def s_baobiao_def s_bingzhong_def s_benqi_def s_shijian_def
  s_fabing_def s_nianling_def s_zu_def s_xing_def s_nan_def s_renqun_def s_zhiye_def
  s_diqu_def s_xiangzhen_def s_jiedao_def col_cases_def col_mom_def col_yoy_def
  col_age_group_def col_count_def col_total_def col_share_def col_chi2_def col_p_def

lemma round_double_zero: "round_double 0 = Fin 0"
  by (simp add: round_double_def)

lemma round_double_small:
  "round_double 1 = Fin 1"
  "round_double 2 = Fin 2"
  "round_double 3 = Fin 3"
  "round_double 5 = Fin 5"
  "round_double 7 = Fin 7"
  "round_double 10 = Fin 10"
  "round_double 20 = Fin 20"
  "round_double 22 = Fin 22"
  "round_double 30 = Fin 30"
  "round_double 40 = Fin 40"
  "round_double 50 = Fin 50"
  "round_double 60 = Fin 60"
  "round_double 100 = Fin 100"
  "round_double 101 = Fin 101"
  "round_double 1234 = Fin 1234"
  "round_double 1200 = Fin 1200"
  "round_double 100000 = Fin 100000"
  by (simp_all add: round_double_def Let_def)
    (simp_all add: log2_hi.simps pow2_def round_half_even_def)

lemma round_double_of_int_small:
  "round_double (of_int 1) = Fin 1"
  "round_double (of_int 2) = Fin 2"
  "round_double (of_int 3) = Fin 3"
  "round_double (of_int 5) = Fin 5"
  "round_double (of_int 7) = Fin 7"
  "round_double (of_int 10) = Fin 10"
  "round_double (of_int 20) = Fin 20"
  "round_double (of_int 22) = Fin 22"
  "round_double (of_int 30) = Fin 30"
  "round_double (of_int 40) = Fin 40"
  "round_double (of_int 50) = Fin 50"
  "round_double (of_int 60) = Fin 60"
  "round_double (of_int 100) = Fin 100"
  "round_double (of_int 101) = Fin 101"
  "round_double (of_int 1234) = Fin 1234"
  "round_double (of_int 1200) = Fin 1200"
  "round_double (of_int 100000) = Fin 100000"
  using round_double_small by simp_all

section \<open>Facts about text\<close>

lemma starts_with_iff: "starts_with s p \<longleftrightarrow> (\<exists>b. s = p @ b)"
  by (induction s p rule: starts_with.induct) auto

lemma str_in_iff: "str_in p s \<longleftrightarrow> (\<exists>a b. s = a @ p @ b)"
proof (induction s)
  case Nil
  then show ?case by auto
next
  case (Cons c s)
  show ?case
  proof
    assume "str_in p (c # s)"
    then consider "starts_with (c # s) p" | "str_in p s" by auto
    then show "\<exists>a b. c # s = a @ p @ b"
    proof cases
      case 1
      then obtain b where "c # s = p @ b" unfolding starts_with_iff by blast
      then have "c # s = [] @ p @ b" by simp
      then show ?thesis by blast
    next
      case 2
      then obtain a b where "s = a @ p @ b" using Cons.IH by blast
      then have "c # s = (c # a) @ p @ b" by simp
      then show ?thesis by blast
    qed
  next
    assume "\<exists>a b. c # s = a @ p @ b"
    then obtain a b where ab: "c # s = a @ p @ b" by blast
    show "str_in p (c # s)"
    proof (cases a)
      case Nil
      with ab have "c # s = p @ b" by simp
      then have "starts_with (c # s) p" unfolding starts_with_iff by blast
      then show ?thesis by simp
    next
      case (Cons a0 a')
      with ab have "s = a' @ p @ b" by simp
      then have "str_in p s" using Cons.IH by blast
      then show ?thesis by simp
    qed
  qed
qed

lemma dropWhile_keeps:
  assumes "p \<noteq> []" "\<forall>c\<in>set p. \<not> P c"
  shows "\<exists>a'. dropWhile P (a @ p @ b) = a' @ p @ b"
proof (induction a)
  case Nil
  from assms obtain x xs where "p = x # xs" "\<not> P x" by (cases p) auto
  then have "dropWhile P ([] @ p @ b) = [] @ p @ b" by simp
  then show ?case by blast
next
  case (Cons x a)
  show ?case
  proof (cases "P x")
    case True
    then show ?thesis using Cons.IH by simp
  next
    case False
    then have "dropWhile P ((x # a) @ p @ b) = (x # a) @ p @ b" by simp
    then show ?thesis by blast
  qed
qed


lemma strip_keeps:
  assumes "p \<noteq> []" "\<forall>c\<in>set p. \<not> py_isspace c" "str_in p s"
  shows "str_in p (strip s)"
proof -
  from assms(3) obtain a b where "s = a @ p @ b" unfolding str_in_iff by blast
  moreover obtain a' where "dropWhile py_isspace (a @ p @ b) = a' @ p @ b"
    using dropWhile_keeps[OF assms(1,2), of a b] by blast
  ultimately have 1: "dropWhile py_isspace s = a' @ p @ b" by simp
  have rp: "rev p \<noteq> []" "\<forall>c\<in>set (rev p). \<not> py_isspace c" using assms(1,2) by simp_all
  obtain b' where "dropWhile py_isspace (rev b @ rev p @ rev a') = b' @ rev p @ rev a'"
    using dropWhile_keeps[OF rp, of "rev b" "rev a'"] by blast
  then have "strip s = a' @ p @ rev b'" using 1 by (simp add: strip_def)
  then show ?thesis unfolding str_in_iff by blast
qed

lemma replace_char_id: "\<forall>c\<in>set p. c \<noteq> old \<Longrightarrow> replace_char old new p = p"
  by (induction p) (simp_all add: replace_char_def)

lemma replace_keeps:
  assumes "\<forall>c\<in>set p. c \<noteq> old" "str_in p s"
  shows "str_in p (replace_char old new s)"
proof -
  from assms(2) obtain a b where "s = a @ p @ b" unfolding str_in_iff by blast
  then have "replace_char old new s = replace_char old new a @ replace_char old new p @ replace_char old new b"
    by (simp add: replace_char_def)
  then have "replace_char old new s = replace_char old new a @ p @ replace_char old new b"
    using replace_char_id[OF assms(1)] by simp
  then show ?thesis unfolding str_in_iff by blast
qed

lemma space_isspace: "py_isspace 0x20"
  by (simp add: py_isspace_def)

lemma nows_nospace: "\<forall>c\<in>set p. \<not> py_isspace c \<Longrightarrow> \<forall>c\<in>set p. c \<noteq> 0x20"
  using space_isspace by blast

lemma normalize_keeps:
  assumes "p \<noteq> []" "\<forall>c\<in>set p. \<not> py_isspace c" "str_in p s"
  shows "str_in p (normalize_name s)"
  unfolding normalize_name_def
  by (rule strip_keeps[OF assms(1,2)], rule replace_keeps[OF nows_nospace[OF assms(2)] assms(3)])

lemma dropWhile_none: "\<forall>c\<in>set xs. \<not> P c \<Longrightarrow> dropWhile P xs = xs"
  by (cases xs) simp_all

lemma normalize_id:
  assumes "\<forall>c\<in>set n. \<not> py_isspace c"
  shows "normalize_name n = n"
proof -
  have r: "replace_char 0x20 [] n = n"
    by (rule replace_char_id[OF nows_nospace[OF assms]])
  have d1: "dropWhile py_isspace n = n" by (rule dropWhile_none[OF assms])
  have "\<forall>c\<in>set (rev n). \<not> py_isspace c" using assms by simp
  then have d2: "dropWhile py_isspace (rev n) = rev n" by (rule dropWhile_none)
  show ?thesis by (simp add: normalize_name_def strip_def r d1 d2)
qed

section \<open>Properties of the age groups\<close>

lemma labels_eval:
  "labels = map asc [''0-4'', ''5-9'', ''10-14'', ''15-19'', ''20-24'', ''25-29'', ''30-34'',
     ''35-39'', ''40-44'', ''45-49'', ''50-54'', ''55-59'', ''60-64'', ''65-69'', ''70-74'',
     ''75-79'', ''80-84'', ''85-89'', ''90-94'', ''95-99'']"
  by (simp add: labels_def labels_all_def bins_def upt_rec dec.simps asc_def)

lemma cut_eval: "cut (Fin 3) = Some 0" "cut (Fin 7) = Some 1" "cut (Fin 22) = Some 4"
  "cut (Fin 101) = None"
  by (simp_all add: cut_def in_bin_def bins_def upt_rec)

lemma cut_overflow: "\<not> f_lt v (Fin 100) \<Longrightarrow> cut v = None"
  by (cases v) (simp_all add: cut_def in_bin_def bins_def upt_rec)

text \<open>
  Claim C2. On the ages 3, 7, 22 and 101 with no sex column, \<open>bin_ages\<close> returns the
  twenty five-year groups from 0-4 to 95-99 with the counts 1, 1, 0, 0, 1, 0, ...: the
  label \<open>100+\<close> is built on line 186 and cut off on line 187, the bin edges end at 100,
  and the age 101 falls in no group and is not counted.
\<close>

theorem bin_ages_drops_overflow:
  "bin_ages xtab \<lparr>columns = [s_nianling], rows = [[Intg 3], [Intg 7], [Intg 22], [Intg 101]]\<rparr>
     = \<lparr>columns = [col_age_group, col_count],
        rows = map (\<lambda>(l, n). [Str (asc l), Intg n])
          [(''0-4'', 1), (''5-9'', 1), (''10-14'', 0), (''15-19'', 0), (''20-24'', 1),
           (''25-29'', 0), (''30-34'', 0), (''35-39'', 0), (''40-44'', 0), (''45-49'', 0),
           (''50-54'', 0), (''55-59'', 0), (''60-64'', 0), (''65-69'', 0), (''70-74'', 0),
           (''75-79'', 0), (''80-84'', 0), (''85-89'', 0), (''90-94'', 0), (''95-99'', 0)]\<rparr>
   \<and> asc ''100+'' \<notin> set labels
   \<and> cut (Fin 101) = None"
proof -
  have c: "column \<lparr>columns = [s_nianling], rows = [[Intg 3], [Intg 7], [Intg 22], [Intg 101]]\<rparr> s_nianling
      = Some [Intg 3, Intg 7, Intg 22, Intg 101]"
    by (simp add: column_def)
  have f: "str_in s_nianling s_nianling" "\<not> str_in s_zu s_nianling"
    "\<not> str_in s_xing s_nianling" "\<not> str_in s_xing col_age_group"
    by (simp_all add: s_nianling_def s_zu_def s_xing_def col_age_group_def)
  have ne: "col_age_group \<noteq> s_nianling" "s_nianling \<noteq> col_age_group"
    by (simp_all add: s_nianling_def col_age_group_def)
  have vc: "value_counts [Some 0, Some 1, Some 4, None]
     = \<lparr>columns = [col_age_group, col_count],
        rows = map (\<lambda>(l, n). [Str (asc l), Intg n])
          [(''0-4'', 1), (''5-9'', 1), (''10-14'', 0), (''15-19'', 0), (''20-24'', 1),
           (''25-29'', 0), (''30-34'', 0), (''35-39'', 0), (''40-44'', 0), (''45-49'', 0),
           (''50-54'', 0), (''55-59'', 0), (''60-64'', 0), (''65-69'', 0), (''70-74'', 0),
           (''75-79'', 0), (''80-84'', 0), (''85-89'', 0), (''90-94'', 0), (''95-99'', 0)]\<rparr>"
    by (simp add: value_counts_def labels_eval upt_rec)
  have 1: "bin_ages xtab \<lparr>columns = [s_nianling], rows = [[Intg 3], [Intg 7], [Intg 22], [Intg 101]]\<rparr>
     = value_counts [Some 0, Some 1, Some 4, None]"
    by (simp add: bin_ages_def f c ne column_def to_numeric_def round_double_small cut_eval
        set_col_def Let_def)
  have 2: "asc ''100+'' \<notin> set labels"
    by (simp add: labels_eval asc_def)
  show ?thesis using 1 2 vc cut_eval(4) by simp
qed

section \<open>Properties of the numeric cleaning\<close>

lemma pow10_pos: "0 < pow10 e"
  by (simp add: pow10_def)

lemma parse_unsigned_nonneg: "parse_unsigned s = Some q \<Longrightarrow> 0 \<le> q"
  by (auto simp: parse_unsigned_def Let_def split: list.splits if_splits option.splits prod.splits
      intro!: mult_nonneg_nonneg divide_nonneg_nonneg less_imp_le[OF pow10_pos])

lemma parse_decimal_nonneg: "0x2D \<notin> set s \<Longrightarrow> parse_decimal s = Some q \<Longrightarrow> 0 \<le> q"
  by (auto simp: parse_decimal_def split: list.splits if_splits dest: parse_unsigned_nonneg)

lemma set_strip_ascii: "set (strip_ascii s) \<subseteq> set s"
proof -
  have "set (strip_ascii s) \<subseteq> set (dropWhile isspace_ascii s)"
    unfolding strip_ascii_def using set_dropWhileD[of _ isspace_ascii "rev (dropWhile isspace_ascii s)"]
    by auto
  then show ?thesis using set_dropWhileD[of _ isspace_ascii s] by blast
qed

lemma lower_ascii_dash: "0x2D \<in> set (lower_ascii s) \<Longrightarrow> 0x2D \<in> set s"
  by (auto simp: lower_ascii_def split: if_splits)

lemma pow2_pos: "0 < pow2 e"
  by (simp add: pow2_def)

lemma round_half_even_nonneg: "0 \<le> x \<Longrightarrow> 0 \<le> round_half_even x"
proof -
  assume "0 \<le> x"
  then have "0 \<le> \<lfloor>x\<rfloor>" by simp
  then show ?thesis by (simp add: round_half_even_def Let_def)
qed

lemma round_double_nonneg:
  assumes "0 \<le> q"
  shows "\<not> f_lt0 (round_double q)"
proof (cases "q = 0")
  case True
  then show ?thesis by (simp add: round_double_def f_lt0_def)
next
  case False
  then have q: "0 < q" using assms by simp
  define e where "e = max (if 1 \<le> \<bar>q\<bar> then log2_hi \<bar>q\<bar> else log2_lo \<bar>q\<bar>) (- 1022)"
  define n where "n = round_half_even (\<bar>q\<bar> * pow2 (52 - e))"
  have "0 \<le> \<bar>q\<bar> * pow2 (52 - e)" using pow2_pos[of "52 - e"] by simp
  then have "0 \<le> n" unfolding n_def by (rule round_half_even_nonneg)
  then have r: "0 \<le> rat_of_int n * pow2 (e - 52)" using pow2_pos[of "e - 52"] by simp
  have "round_double q
      = (if pow2 1024 \<le> of_int n * pow2 (e - 52) then PInf else Fin (of_int n * pow2 (e - 52)))"
    using q by (simp add: round_double_def Let_def e_def n_def)
  then show ?thesis using r by (simp add: f_lt0_def)
qed

lemma to_numeric_str_nonneg:
  assumes "0x2D \<notin> set s"
  shows "\<not> f_lt0 (to_numeric_str s)"
proof (cases "parse_decimal (strip_ascii s)")
  case (Some q)
  have "0x2D \<notin> set (strip_ascii s)" using assms set_strip_ascii by blast
  then have "0 \<le> q" using Some parse_decimal_nonneg by blast
  then show ?thesis using Some round_double_nonneg by (simp add: to_numeric_str_def)
next
  case None
  have "0x2D \<notin> set (lower_ascii s)" using assms lower_ascii_dash by blast
  then have "lower_ascii s \<noteq> asc ''-inf''" "lower_ascii s \<noteq> asc ''-infinity''"
    by (auto simp: asc_def)
  then show ?thesis using None by (simp add: to_numeric_str_def f_lt0_def Let_def)
qed

lemma replace_char_removes: "old \<notin> set new \<Longrightarrow> old \<notin> set (replace_char old new s)"
  by (induction s) (auto simp: replace_char_def)

lemma clean_text_no_dash: "0x2D \<notin> set (clean_text s)"
  unfolding clean_text_def by (rule replace_char_removes) (simp add: asc_def)

lemma fillna0_not_nan: "fillna0 v \<noteq> NaN"
  by (simp add: fillna0_def)

lemma fillna0_lt0: "f_lt0 (fillna0 v) = f_lt0 v"
  by (cases v) (simp_all add: fillna0_def f_lt0_def)

lemma normalize_number_nonneg: "\<not> f_lt0 (normalize_number s)"
  unfolding normalize_number_def fillna0_lt0
  by (rule to_numeric_str_nonneg[OF clean_text_no_dash])

lemma normalize_number_not_nan: "normalize_number s \<noteq> NaN"
  by (simp add: normalize_number_def fillna0_not_nan)

lemma replace_char_idem: "old \<notin> set new \<Longrightarrow> replace_char old new (replace_char old new s) = replace_char old new s"
  using replace_char_id[of "replace_char old new s" old new] replace_char_removes[of old new s]
  by auto

lemmas parse_defs =
  to_numeric_str_def strip_ascii_def isspace_ascii_def parse_decimal_def parse_unsigned_def
  is_digit_def parse_exponent_def nat_of_digits_def pow10_def lower_ascii_def

lemma normalize_number_examples:
  "normalize_number (asc '''') = Fin 0"
  "normalize_number (asc ''1,234'') = Fin 1234"
  "normalize_number (asc ''-'') = Fin 0"
  "normalize_number (asc ''abc'') = Fin 0"
  "normalize_number (asc ''-3'') = Fin 3"
  "normalize_number (asc ''-2'') = Fin 2"
  "normalize_number (asc ''inf'') = PInf"
  "normalize_number (asc ''INF'') = PInf"
  "normalize_number (asc ''Infinity'') = PInf"
  by (simp_all add: normalize_number_def clean_text_def replace_char_def asc_def parse_defs
      fillna0_def round_double_small round_double_zero)

lemma coerce_cell_examples:
  "coerce_cell (Str (asc ''1,234'')) = Fin 0"
  "coerce_cell (Str (asc ''-'')) = Fin 0"
  by (simp_all add: coerce_cell_def to_numeric_def asc_def parse_defs fillna0_def)

lemma normalize_number_commas:
  "normalize_number (replace_char 0x2C [] s) = normalize_number s"
  by (simp add: normalize_number_def clean_text_def replace_char_idem)

lemma clean_text_no_comma: "0x2C \<notin> set (clean_text s)"
proof -
  have "0x2C \<notin> set (replace_char 0x2C [] s)"
    by (rule replace_char_removes) simp
  then show ?thesis
    by (auto simp: clean_text_def replace_char_def asc_def split: if_splits)
qed

text \<open>
  Claim C6, as amended. The cleaning of line 222 is a total function of the text of the
  cell: it never yields NaN, because what pandas cannot read becomes 0.0; it reads the
  text with every comma removed; a lone dash gives 0.0, and so do the empty text and text
  that is not a numeral. The value need not be finite: the texts \<open>inf\<close>, \<open>INF\<close> and
  \<open>Infinity\<close> give \<open>+inf\<close>.
\<close>

theorem normalize_number_total:
  "normalize_number s \<noteq> NaN
   \<and> normalize_number s = fillna0 (to_numeric_str (clean_text s))
   \<and> fillna0 NaN = Fin 0
   \<and> normalize_number (replace_char 0x2C [] s) = normalize_number s
   \<and> 0x2C \<notin> set (clean_text s)
   \<and> normalize_number (asc '''') = Fin 0
   \<and> normalize_number (asc ''1,234'') = Fin 1234
   \<and> normalize_number (asc ''-'') = Fin 0
   \<and> normalize_number (asc ''abc'') = Fin 0
   \<and> normalize_number (asc ''inf'') = PInf
   \<and> normalize_number (asc ''INF'') = PInf
   \<and> normalize_number (asc ''Infinity'') = PInf"
  using normalize_number_not_nan[of s] normalize_number_commas[of s] clean_text_no_comma[of s]
    normalize_number_examples(1-4,7-9)
  by (simp add: normalize_number_def fillna0_def)

text \<open>The claim as stated fails: on \<open>inf\<close> the value is not finite.\<close>

theorem normalize_number_inf_counterexample:
  "\<not> is_finite (normalize_number (asc ''inf''))"
  by (simp add: normalize_number_examples(7) is_finite_def)

section \<open>Properties of the classifier\<close>

lemma keys_B_ok: "k \<in> set keys_B \<Longrightarrow> k \<noteq> [] \<and> (\<forall>c\<in>set k. \<not> py_isspace c)"
  by (auto simp: keys_B_def py_isspace_def)

lemma keys_C_ok: "k \<in> set keys_C \<Longrightarrow> k \<noteq> [] \<and> (\<forall>c\<in>set k. \<not> py_isspace c)"
  by (auto simp: keys_C_def py_isspace_def)

lemma A_nows: "\<forall>n\<in>set DISEASE_CLASS_A. \<forall>c\<in>set n. \<not> py_isspace c"
  by (simp add: DISEASE_CLASS_A_def py_isspace_def)
lemma B_nows: "\<forall>n\<in>set DISEASE_CLASS_B. \<forall>c\<in>set n. \<not> py_isspace c"
  by (simp add: DISEASE_CLASS_B_def py_isspace_def)
lemma C_nows: "\<forall>n\<in>set DISEASE_CLASS_C. \<forall>c\<in>set n. \<not> py_isspace c"
  by (simp add: DISEASE_CLASS_C_def py_isspace_def)
lemma B_notA: "\<forall>n\<in>set DISEASE_CLASS_B. n \<notin> set DISEASE_CLASS_A"
  by (simp add: DISEASE_CLASS_B_def DISEASE_CLASS_A_def)
lemma C_notA: "\<forall>n\<in>set DISEASE_CLASS_C. n \<notin> set DISEASE_CLASS_A"
  by (simp add: DISEASE_CLASS_C_def DISEASE_CLASS_A_def)
lemma C_notB: "\<forall>n\<in>set DISEASE_CLASS_C. n \<notin> set DISEASE_CLASS_B"
  by (simp add: DISEASE_CLASS_C_def DISEASE_CLASS_B_def)
lemma C_nokeyB: "\<forall>n\<in>set DISEASE_CLASS_C. \<not> list_ex (\<lambda>x. str_in x n) keys_B"
  by (simp add: DISEASE_CLASS_C_def keys_B_def)
lemma A_nokey: "\<forall>n\<in>set DISEASE_CLASS_A. \<not> list_ex (\<lambda>x. str_in x n) keys_B \<and> \<not> list_ex (\<lambda>x. str_in x n) keys_C"
  by (simp add: DISEASE_CLASS_A_def keys_B_def keys_C_def)
lemma cls_distinct: "distinct [cls_A, cls_B, cls_C, cls_other]"
  by (simp add: cls_A_def cls_B_def cls_C_def cls_other_def)


lemma class_of_A: "name \<in> set DISEASE_CLASS_A \<Longrightarrow> get_disease_class name = cls_A"
  using normalize_id[of name] A_nows by (simp add: get_disease_class_def)

lemma class_of_B: "name \<in> set DISEASE_CLASS_B \<Longrightarrow> get_disease_class name = cls_B"
  using normalize_id[of name] B_nows B_notA by (simp add: get_disease_class_def)

lemma class_of_C: "name \<in> set DISEASE_CLASS_C \<Longrightarrow> get_disease_class name = cls_C"
  using normalize_id[of name] C_nows C_notA C_notB C_nokeyB by (simp add: get_disease_class_def)

lemma key_B_not_A:
  assumes "key \<in> set keys_B" "str_in key n"
  shows "n \<notin> set DISEASE_CLASS_A"
proof
  assume "n \<in> set DISEASE_CLASS_A"
  then have "\<not> list_ex (\<lambda>x. str_in x n) keys_B" using A_nokey by blast
  then show False using assms unfolding list_ex_iff by blast
qed

lemma key_C_not_A:
  assumes "key \<in> set keys_C" "str_in key n"
  shows "n \<notin> set DISEASE_CLASS_A"
proof
  assume "n \<in> set DISEASE_CLASS_A"
  then have "\<not> list_ex (\<lambda>x. str_in x n) keys_C" using A_nokey by blast
  then show False using assms unfolding list_ex_iff by blast
qed

lemma class_of_key_B:
  assumes "key \<in> set keys_B" "str_in key name"
  shows "get_disease_class name = cls_B"
proof -
  have k: "str_in key (normalize_name name)"
    using normalize_keeps keys_B_ok[OF assms(1)] assms(2) by blast
  then have "list_ex (\<lambda>x. str_in x (normalize_name name)) keys_B"
    unfolding list_ex_iff using assms(1) by blast
  moreover have "normalize_name name \<notin> set DISEASE_CLASS_A"
    by (rule key_B_not_A[OF assms(1) k])
  ultimately show ?thesis by (simp add: get_disease_class_def)
qed

lemma class_of_key_C:
  assumes "key \<in> set keys_C" "str_in key name"
    and "normalize_name name \<notin> set DISEASE_CLASS_B"
    and "\<not> list_ex (\<lambda>x. str_in x (normalize_name name)) keys_B"
  shows "get_disease_class name = cls_C"
proof -
  have k: "str_in key (normalize_name name)"
    using normalize_keeps keys_C_ok[OF assms(1)] assms(2) by blast
  then have "list_ex (\<lambda>x. str_in x (normalize_name name)) keys_C"
    unfolding list_ex_iff using assms(1) by blast
  moreover have "normalize_name name \<notin> set DISEASE_CLASS_A"
    by (rule key_C_not_A[OF assms(1) k])
  ultimately show ?thesis using assms(3,4) by (simp add: get_disease_class_def)
qed

text \<open>
  Claim C5. \<open>get_disease_class\<close> is a total function of the name that tries, in this order,
  exact membership in class A, then exact membership in class B or one of the class B
  substrings, then exact membership in class C or one of the class C substrings, and
  otherwise answers "other"; the tests read the name with spaces removed and stripped.
  Hence every class A name is classified A, every class B name and every string containing
  a class B substring is classified B, every class C name is classified C, and a string
  containing a class C substring that meets no class B rule is classified C.
\<close>

theorem get_disease_class_order:
  "get_disease_class name \<in> {cls_A, cls_B, cls_C, cls_other}
   \<and> (normalize_name name \<in> set DISEASE_CLASS_A \<longrightarrow> get_disease_class name = cls_A)
   \<and> (normalize_name name \<notin> set DISEASE_CLASS_A
        \<and> (normalize_name name \<in> set DISEASE_CLASS_B
             \<or> list_ex (\<lambda>x. str_in x (normalize_name name)) keys_B)
        \<longrightarrow> get_disease_class name = cls_B)
   \<and> (normalize_name name \<notin> set DISEASE_CLASS_A
        \<and> \<not> (normalize_name name \<in> set DISEASE_CLASS_B
             \<or> list_ex (\<lambda>x. str_in x (normalize_name name)) keys_B)
        \<and> (normalize_name name \<in> set DISEASE_CLASS_C
             \<or> list_ex (\<lambda>x. str_in x (normalize_name name)) keys_C)
        \<longrightarrow> get_disease_class name = cls_C)
   \<and> (normalize_name name \<notin> set DISEASE_CLASS_A
        \<and> \<not> (normalize_name name \<in> set DISEASE_CLASS_B
             \<or> list_ex (\<lambda>x. str_in x (normalize_name name)) keys_B)
        \<and> \<not> (normalize_name name \<in> set DISEASE_CLASS_C
             \<or> list_ex (\<lambda>x. str_in x (normalize_name name)) keys_C)
        \<longrightarrow> get_disease_class name = cls_other)
   \<and> (name \<in> set DISEASE_CLASS_A \<longrightarrow> get_disease_class name = cls_A)
   \<and> (name \<in> set DISEASE_CLASS_B \<longrightarrow> get_disease_class name = cls_B)
   \<and> (key \<in> set keys_B \<and> str_in key name \<longrightarrow> get_disease_class name = cls_B)
   \<and> (name \<in> set DISEASE_CLASS_C \<longrightarrow> get_disease_class name = cls_C)
   \<and> (key \<in> set keys_C \<and> str_in key name
        \<and> normalize_name name \<notin> set DISEASE_CLASS_B
        \<and> \<not> list_ex (\<lambda>x. str_in x (normalize_name name)) keys_B
        \<longrightarrow> get_disease_class name = cls_C)"
proof (intro conjI impI)
  show "get_disease_class name \<in> {cls_A, cls_B, cls_C, cls_other}"
    by (simp add: get_disease_class_def Let_def)
next
  assume "normalize_name name \<in> set DISEASE_CLASS_A"
  then show "get_disease_class name = cls_A" by (simp add: get_disease_class_def)
next
  assume "normalize_name name \<notin> set DISEASE_CLASS_A
        \<and> (normalize_name name \<in> set DISEASE_CLASS_B
             \<or> list_ex (\<lambda>x. str_in x (normalize_name name)) keys_B)"
  then show "get_disease_class name = cls_B" by (simp add: get_disease_class_def)
next
  assume "normalize_name name \<notin> set DISEASE_CLASS_A
        \<and> \<not> (normalize_name name \<in> set DISEASE_CLASS_B
             \<or> list_ex (\<lambda>x. str_in x (normalize_name name)) keys_B)
        \<and> (normalize_name name \<in> set DISEASE_CLASS_C
             \<or> list_ex (\<lambda>x. str_in x (normalize_name name)) keys_C)"
  then show "get_disease_class name = cls_C" by (simp add: get_disease_class_def)
next
  assume "normalize_name name \<notin> set DISEASE_CLASS_A
        \<and> \<not> (normalize_name name \<in> set DISEASE_CLASS_B
             \<or> list_ex (\<lambda>x. str_in x (normalize_name name)) keys_B)
        \<and> \<not> (normalize_name name \<in> set DISEASE_CLASS_C
             \<or> list_ex (\<lambda>x. str_in x (normalize_name name)) keys_C)"
  then show "get_disease_class name = cls_other" by (simp add: get_disease_class_def)
next
  assume "name \<in> set DISEASE_CLASS_A"
  then show "get_disease_class name = cls_A" by (rule class_of_A)
next
  assume "name \<in> set DISEASE_CLASS_B"
  then show "get_disease_class name = cls_B" by (rule class_of_B)
next
  assume "key \<in> set keys_B \<and> str_in key name"
  then show "get_disease_class name = cls_B" using class_of_key_B by blast
next
  assume "name \<in> set DISEASE_CLASS_C"
  then show "get_disease_class name = cls_C" by (rule class_of_C)
next
  assume "key \<in> set keys_C \<and> str_in key name
        \<and> normalize_name name \<notin> set DISEASE_CLASS_B
        \<and> \<not> list_ex (\<lambda>x. str_in x (normalize_name name)) keys_B"
  then show "get_disease_class name = cls_C" using class_of_key_C by blast
qed

theorem get_disease_class_order_witness:
  "get_disease_class [0x9F20, 0x75AB] = cls_A
   \<and> get_disease_class [0x20, 0x9F20, 0x20, 0x75AB, 0x3000] = cls_A
   \<and> get_disease_class [0x6DCB, 0x75C5] = cls_B
   \<and> get_disease_class [0x20, 0x4E59, 0x578B, 0x809D, 0x708E] = cls_B
   \<and> get_disease_class [0x98CE, 0x75B9] = cls_C
   \<and> get_disease_class [0x611F, 0x67D3, 0x6027, 0x8179, 0x6CFB] = cls_C
   \<and> get_disease_class [0x6C34, 0x75D8] = cls_other"
proof -
  have a: "[0x9F20, 0x75AB] \<in> set DISEASE_CLASS_A"
    by (simp add: DISEASE_CLASS_A_def)
  have a': "normalize_name [0x20, 0x9F20, 0x20, 0x75AB, 0x3000] \<in> set DISEASE_CLASS_A"
    by (simp add: DISEASE_CLASS_A_def normalize_name_def strip_def replace_char_def py_isspace_def)
  have b: "[0x6DCB, 0x75C5] \<in> set DISEASE_CLASS_B"
    by (simp add: DISEASE_CLASS_B_def)
  have kb: "[0x809D, 0x708E] \<in> set keys_B \<and> str_in [0x809D, 0x708E] [0x20, 0x4E59, 0x578B, 0x809D, 0x708E]"
    by (simp add: keys_B_def)
  have c: "[0x98CE, 0x75B9] \<in> set DISEASE_CLASS_C"
    by (simp add: DISEASE_CLASS_C_def)
  have kc: "[0x8179, 0x6CFB] \<in> set keys_C
     \<and> str_in [0x8179, 0x6CFB] [0x611F, 0x67D3, 0x6027, 0x8179, 0x6CFB]
     \<and> normalize_name [0x611F, 0x67D3, 0x6027, 0x8179, 0x6CFB] \<notin> set DISEASE_CLASS_B
     \<and> \<not> list_ex (\<lambda>x. str_in x (normalize_name [0x611F, 0x67D3, 0x6027, 0x8179, 0x6CFB])) keys_B"
    by (simp add: keys_C_def keys_B_def DISEASE_CLASS_B_def normalize_name_def strip_def
        replace_char_def py_isspace_def)
  have o: "normalize_name [0x6C34, 0x75D8] \<notin> set DISEASE_CLASS_A
     \<and> \<not> (normalize_name [0x6C34, 0x75D8] \<in> set DISEASE_CLASS_B
          \<or> list_ex (\<lambda>x. str_in x (normalize_name [0x6C34, 0x75D8])) keys_B)
     \<and> \<not> (normalize_name [0x6C34, 0x75D8] \<in> set DISEASE_CLASS_C
          \<or> list_ex (\<lambda>x. str_in x (normalize_name [0x6C34, 0x75D8])) keys_C)"
    by (simp add: keys_C_def keys_B_def DISEASE_CLASS_A_def DISEASE_CLASS_B_def
        DISEASE_CLASS_C_def normalize_name_def strip_def replace_char_def py_isspace_def)
  have w1: "get_disease_class [0x9F20, 0x75AB] = cls_A"
    using a get_disease_class_order[of "[0x9F20, 0x75AB]" "[]"] by simp
  have w2: "get_disease_class [0x20, 0x9F20, 0x20, 0x75AB, 0x3000] = cls_A"
    using a' get_disease_class_order[of "[0x20, 0x9F20, 0x20, 0x75AB, 0x3000]" "[]"] by simp
  have w3: "get_disease_class [0x6DCB, 0x75C5] = cls_B"
    using b get_disease_class_order[of "[0x6DCB, 0x75C5]" "[]"] by simp
  have w4: "get_disease_class [0x20, 0x4E59, 0x578B, 0x809D, 0x708E] = cls_B"
    using kb get_disease_class_order[of "[0x20, 0x4E59, 0x578B, 0x809D, 0x708E]" "[0x809D, 0x708E]"]
    by simp
  have w5: "get_disease_class [0x98CE, 0x75B9] = cls_C"
    using c get_disease_class_order[of "[0x98CE, 0x75B9]" "[]"] by simp
  have w6: "get_disease_class [0x611F, 0x67D3, 0x6027, 0x8179, 0x6CFB] = cls_C"
    using kc get_disease_class_order[of "[0x611F, 0x67D3, 0x6027, 0x8179, 0x6CFB]" "[0x8179, 0x6CFB]"]
    by simp
  have w7: "get_disease_class [0x6C34, 0x75D8] = cls_other"
    using o get_disease_class_order[of "[0x6C34, 0x75D8]" "[]"] by simp
  show ?thesis using w1 w2 w3 w4 w5 w6 w7 by simp
qed

section \<open>Properties of the ingestion\<close>

lemma store_data: "data (fst (store st r t n)) = (data st)(r := Some t)"
  by (simp add: store_def)

lemma parse_file_routed:
  assumes "\<not> is_geo_name (fname f)" "payload f = Sheet df" "route_of (fname f) df = Some r"
  shows "data (fst (parse_file ftext xtab st f))
     = (case process_as ftext xtab r df of
          Stored t \<Rightarrow> (data st)(r := Some t)
        | Raised e \<Rightarrow> data st
        | Skipped \<Rightarrow> data st)"
  using assms by (simp add: parse_file_def store_data split: outcome.splits)









section \<open>Properties of the summary cleaning\<close>

lemma clean_text_map:
  "clean_text s = map (\<lambda>c. if c = 0x2D then 0x30 else c) (filter (\<lambda>c. c \<noteq> 0x2C) s)"
  by (induction s) (simp_all add: clean_text_def replace_char_def asc_def)

lemma numeric_headers:
  "is_numeric_header col_cases" "is_numeric_header col_mom" "is_numeric_header col_yoy"
  by (simp_all add: is_numeric_header_def marker_defs)

lemma clean_summary_cell:
  assumes "i < length (rows df)" "j < length (columns df)" "j < length (rows df ! i)"
  shows "rows (clean_summary ftext df) ! i ! j
     = (if is_numeric_header (columns df ! j) then clean_numeric_cell ftext (rows df ! i ! j)
        else rows df ! i ! j)"
  using assms by (simp add: clean_summary_def)

lemma parse_file_summary:
  assumes "\<not> is_geo_name (fname f)" "payload f = Sheet df"
    and "route_of (fname f) df = Some Summary"
  shows "data (fst (parse_file ftext xtab st f)) Summary = Some (clean_summary ftext df)"
  using parse_file_routed[OF assms, of ftext xtab st] by (simp add: process_as_def)

lemma normalize_number_exponent: "normalize_number (asc ''1e-05'') = Fin 100000"
  by (simp add: normalize_number_def clean_text_def replace_char_def asc_def parse_defs
      fillna0_def round_double_small)

text \<open>
  Claim C10. When a file is routed to the summary role, every cell of a column whose name
  contains the count or the ratio character is replaced by the number read from its text
  (the text Python prints for the cell) after every comma is removed and every dash,
  wherever it stands, is turned into the digit 0. That number is never negative: \<open>-3\<close> is
  stored as 3.0 and \<open>-2\<close> as 2.0, and the two trend columns are among the columns
  cleaned. The dash of an exponent is replaced as well: the text \<open>1e-05\<close> is stored as
  100000.0.
\<close>

theorem summary_cleaning_loses_sign:
  assumes "\<not> is_geo_name (fname f)" "payload f = Sheet df"
    and "route_of (fname f) df = Some Summary"
    and "i < length (rows df)" "j < length (columns df)" "j < length (rows df ! i)"
    and "is_numeric_header (columns df ! j)"
  shows "(\<exists>t. data (fst (parse_file ftext xtab st f)) Summary = Some t
            \<and> columns t = columns df
            \<and> rows t ! i ! j = Flt (normalize_number (py_str ftext (rows df ! i ! j))))
     \<and> normalize_number (py_str ftext (rows df ! i ! j))
         = fillna0 (to_numeric_str (clean_text (py_str ftext (rows df ! i ! j))))
     \<and> clean_text (py_str ftext (rows df ! i ! j))
         = map (\<lambda>c. if c = 0x2D then 0x30 else c)
             (filter (\<lambda>c. c \<noteq> 0x2C) (py_str ftext (rows df ! i ! j)))
     \<and> \<not> f_lt0 (normalize_number (py_str ftext (rows df ! i ! j)))
     \<and> normalize_number (asc ''-3'') = Fin 3
     \<and> normalize_number (asc ''-2'') = Fin 2
     \<and> normalize_number (asc ''1e-05'') = Fin 100000
     \<and> is_numeric_header col_mom \<and> is_numeric_header col_yoy"
proof -
  have "data (fst (parse_file ftext xtab st f)) Summary = Some (clean_summary ftext df)"
    by (rule parse_file_summary[OF assms(1-3)])
  moreover have "columns (clean_summary ftext df) = columns df"
    by (simp add: clean_summary_def)
  moreover have "rows (clean_summary ftext df) ! i ! j
      = Flt (normalize_number (py_str ftext (rows df ! i ! j)))"
    using clean_summary_cell[OF assms(4-6)] assms(7) by (simp add: clean_numeric_cell_def)
  ultimately have 1: "\<exists>t. data (fst (parse_file ftext xtab st f)) Summary = Some t
            \<and> columns t = columns df
            \<and> rows t ! i ! j = Flt (normalize_number (py_str ftext (rows df ! i ! j)))"
    by blast
  show ?thesis
    using 1 normalize_number_nonneg[of "py_str ftext (rows df ! i ! j)"]
      clean_text_map[of "py_str ftext (rows df ! i ! j)"]
      normalize_number_examples(5,6) normalize_number_exponent numeric_headers(2,3)
    by (simp add: normalize_number_def)
qed

theorem summary_cleaning_loses_sign_witness:
  "\<forall>ftext xtab.
     (\<exists>t. data (fst (parse_file ftext xtab init_parser
             (\<lparr>fname = s_baobiao @ asc ''.xlsx'',
              payload = Sheet \<lparr>columns = [s_bingzhong, col_cases, col_mom, col_yoy],
                               rows = [[Str s_heji, Intg 100, Intg 5, Intg (- 2)]]\<rparr>\<rparr>
             :: unit upload))) Summary = Some t
      \<and> rows t ! 0 ! 3 = Flt (Fin 2))"
proof (intro allI)
  fix ftext :: "rat \<Rightarrow> ustr" and xtab :: "nat option list \<Rightarrow> cell list \<Rightarrow> table option"
  let ?df = "\<lparr>columns = [s_bingzhong, col_cases, col_mom, col_yoy],
               rows = [[Str s_heji, Intg 100, Intg 5, Intg (- 2)]]\<rparr>"
  let ?f = "\<lparr>fname = s_baobiao @ asc ''.xlsx'', payload = Sheet ?df\<rparr> :: unit upload"
  have 1: "\<not> is_geo_name (fname ?f)"
    by (simp add: is_geo_name_def ends_with_def marker_defs asc_def)
  have 2: "payload ?f = Sheet ?df" by simp
  have 3: "route_of (fname ?f) ?df = Some Summary"
    by (simp add: route_of_def Let_def marker_defs asc_def)
  have 4: "0 < length (rows ?df)" "3 < length (columns ?df)" "3 < length (rows ?df ! 0)"
    by simp_all
  have 5: "is_numeric_header (columns ?df ! 3)"
    by (simp add: numeric_headers)
  have 6: "normalize_number (py_str ftext (Intg (- 2))) = Fin 2"
    using normalize_number_examples(6)
    by (simp add: py_str_def str_of_int_def dec.simps asc_def)
  show "\<exists>t. data (fst (parse_file ftext xtab init_parser ?f)) Summary = Some t
      \<and> rows t ! 0 ! 3 = Flt (Fin 2)"
    using conjunct1[OF summary_cleaning_loses_sign[OF 1 2 3 4 5, of ftext xtab init_parser]] 6
    by auto
qed

end
